theory Spec2Isabelle
  imports Complex_Main "HOL-Library.AList"
begin

section \<open>Values and exceptions\<close>

text \<open>
  The program is one Python script, \<^verbatim>\<open>chatgpt_app.py\<close>. Its numbers are floats; they
  are modelled as reals, so rounding is outside this development, and what is proved of
  the reals speaks for the script where no float overflows. A division by zero (numpy
  yields \<^verbatim>\<open>nan\<close> or \<^verbatim>\<open>inf\<close> and goes on) is modelled as \<open>None\<close>. Overflow is
  treated in a second model of the metric function, on floats with infinities.

  A Python exception is a value of \<open>exn\<close>; a call that may raise returns \<open>exn + 'a\<close>.
  \<open>ValueError\<close> and \<open>IndexError\<close> are the builtin classes; \<open>LibraryError\<close> stands for
  whatever else a forecasting library raises.
\<close>

datatype exn = ValueError string | IndexError string | LibraryError string

type_synonym 'a result = "exn + 'a"

type_synonym series = "real list"

section \<open>The metric function\<close>

text \<open>
  \<^verbatim>\<open>np.where(y == 0, 1e-6, y)\<close>: every entry equal to zero becomes \<open>1e-6\<close>.
\<close>

definition where_zero :: "real list \<Rightarrow> real list" where
  "where_zero y = map (\<lambda>v. if v = 0 then 1 / 1000000 else v) y"

text \<open>
  \<^verbatim>\<open>sklearn.metrics.mean_squared_error\<close> and \<^verbatim>\<open>mean_absolute_error\<close> on two
  one-dimensional arrays. Both validate their arguments first: arrays of different
  lengths and arrays without samples raise \<^verbatim>\<open>ValueError\<close>.
\<close>

definition check_reg_targets :: "real list \<Rightarrow> real list \<Rightarrow> exn option" where
  "check_reg_targets y_true y_pred =
     (if length y_true \<noteq> length y_pred
      then Some (ValueError ''Found input variables with inconsistent numbers of samples'')
      else if y_true = []
      then Some (ValueError ''Found array with 0 sample(s) while a minimum of 1 is required'')
      else None)"

definition mean_squared_error :: "real list \<Rightarrow> real list \<Rightarrow> real result" where
  "mean_squared_error y_true y_pred =
     (case check_reg_targets y_true y_pred of
        Some e \<Rightarrow> Inl e
      | None \<Rightarrow> Inr (sum_list (map2 (\<lambda>a p. (a - p)\<^sup>2) y_true y_pred) / real (length y_true)))"

definition mean_absolute_error :: "real list \<Rightarrow> real list \<Rightarrow> real result" where
  "mean_absolute_error y_true y_pred =
     (case check_reg_targets y_true y_pred of
        Some e \<Rightarrow> Inl e
      | None \<Rightarrow> Inr (sum_list (map2 (\<lambda>a p. \<bar>a - p\<bar>) y_true y_pred) / real (length y_true)))"

text \<open>
  numpy's elementwise division and \<^verbatim>\<open>np.mean\<close>. A zero divisor gives \<open>None\<close>, and so
  does the mean of an array holding such an entry or of an empty array.
\<close>

definition np_divide :: "real \<Rightarrow> real \<Rightarrow> real option" where
  "np_divide x y = (if y = 0 then None else Some (x / y))"

definition np_mean :: "real option list \<Rightarrow> real option" where
  "np_mean xs =
     (if xs = [] \<or> None \<in> set xs then None
      else Some (sum_list (map the xs) / real (length xs)))"

record metric_set =
  RMSE :: real
  MAE :: real
  SMAPE :: "real option"

text \<open>
  \<^verbatim>\<open>calculate_metrics\<close>, lines 22 to 30. The two \<^verbatim>\<open>np.where\<close> lines rebind
  \<^verbatim>\<open>y_true\<close> and \<^verbatim>\<open>y_pred\<close>, so all three metrics read the replaced arrays. The
  subtraction in the last metric is only reached with arrays of equal length, the first
  sklearn call having raised otherwise.
\<close>

definition calculate_metrics :: "real list \<Rightarrow> real list \<Rightarrow> metric_set result" where
  "calculate_metrics y_true_in y_pred_in =
     (let y_true = where_zero y_true_in;
          y_pred = where_zero y_pred_in
      in case mean_squared_error y_true y_pred of
           Inl e \<Rightarrow> Inl e
         | Inr mse \<Rightarrow>
             (case mean_absolute_error y_true y_pred of
                Inl e \<Rightarrow> Inl e
              | Inr mae \<Rightarrow>
                  Inr \<lparr>RMSE = sqrt mse, MAE = mae,
                       SMAPE = map_option (\<lambda>v. 100 * v)
                         (np_mean (map2 (\<lambda>a p. np_divide (2 * \<bar>a - p\<bar>) (\<bar>a\<bar> + \<bar>p\<bar>))
                                    y_true y_pred))\<rparr>))"

text \<open>
  The evaluator as the specification words it: RMSE and MAE of the sequences it is
  given, and the symmetric percentage error of the sequences after the replacement of
  zeros. It is used only to compare \<open>calculate_metrics\<close> with.
\<close>

definition evaluate_spec :: "real list \<Rightarrow> real list \<Rightarrow> metric_set" where
  "evaluate_spec actual predicted =
     (let n = length actual;
          a = where_zero actual;
          p = where_zero predicted
      in \<lparr>RMSE = sqrt ((\<Sum>i<n. (actual ! i - predicted ! i)\<^sup>2) / real n),
          MAE = (\<Sum>i<n. \<bar>actual ! i - predicted ! i\<bar>) / real n,
          SMAPE = Some (100 * ((\<Sum>i<n. 2 * \<bar>a ! i - p ! i\<bar> / (\<bar>a ! i\<bar> + \<bar>p ! i\<bar>)) / real n))\<rparr>)"

section \<open>The metric function on floats that overflow\<close>

text \<open>
  The real numbers above have no largest element, and a float64 has: a finite array can
  make a difference, a square or a sum overflow, and numpy goes on with \<^verbatim>\<open>inf\<close> and
  \<^verbatim>\<open>nan\<close>. For the claim that bounds the metrics on all inputs the same lines of the
  script are modelled a second time, on values that are a finite number, \<^verbatim>\<open>inf\<close>,
  \<^verbatim>\<open>-inf\<close> or \<^verbatim>\<open>nan\<close>. A result beyond the largest finite float64 becomes an
  infinity; rounding and the sign of zero are still left out.
\<close>

datatype f64 = Fin real | PInf | NInf | NaN

definition max_f64 :: real where
  "max_f64 = (2 - 1 / 2 ^ 52) * 2 ^ 1023"

definition overflow :: "real \<Rightarrow> f64" where
  "overflow r = (if max_f64 < r then PInf else if r < - max_f64 then NInf else Fin r)"

text \<open>The infinity with the sign of \<open>r\<close>; \<^verbatim>\<open>nan\<close> when there is no sign.\<close>

definition inf_of_sign :: "real \<Rightarrow> f64" where
  "inf_of_sign r = (if 0 < r then PInf else if r < 0 then NInf else NaN)"

fun f_neg :: "f64 \<Rightarrow> f64" where
  "f_neg (Fin a) = Fin (- a)"
| "f_neg PInf = NInf"
| "f_neg NInf = PInf"
| "f_neg NaN = NaN"

fun f_abs :: "f64 \<Rightarrow> f64" where
  "f_abs (Fin a) = Fin \<bar>a\<bar>"
| "f_abs PInf = PInf"
| "f_abs NInf = PInf"
| "f_abs NaN = NaN"

fun f_add :: "f64 \<Rightarrow> f64 \<Rightarrow> f64" where
  "f_add (Fin a) (Fin b) = overflow (a + b)"
| "f_add NaN y = NaN"
| "f_add x NaN = NaN"
| "f_add PInf NInf = NaN"
| "f_add NInf PInf = NaN"
| "f_add PInf y = PInf"
| "f_add NInf y = NInf"
| "f_add x PInf = PInf"
| "f_add x NInf = NInf"

definition f_sub :: "f64 \<Rightarrow> f64 \<Rightarrow> f64" where
  "f_sub x y = f_add x (f_neg y)"

fun f_mul :: "f64 \<Rightarrow> f64 \<Rightarrow> f64" where
  "f_mul (Fin a) (Fin b) = overflow (a * b)"
| "f_mul NaN y = NaN"
| "f_mul x NaN = NaN"
| "f_mul (Fin a) PInf = inf_of_sign a"
| "f_mul (Fin a) NInf = inf_of_sign (- a)"
| "f_mul PInf (Fin b) = inf_of_sign b"
| "f_mul NInf (Fin b) = inf_of_sign (- b)"
| "f_mul PInf PInf = PInf"
| "f_mul NInf NInf = PInf"
| "f_mul PInf NInf = NInf"
| "f_mul NInf PInf = NInf"

fun f_div :: "f64 \<Rightarrow> f64 \<Rightarrow> f64" where
  "f_div (Fin a) (Fin b) = (if b = 0 then inf_of_sign a else overflow (a / b))"
| "f_div NaN y = NaN"
| "f_div x NaN = NaN"
| "f_div (Fin a) y = Fin 0"
| "f_div PInf (Fin b) = (if 0 \<le> b then PInf else NInf)"
| "f_div NInf (Fin b) = (if 0 \<le> b then NInf else PInf)"
| "f_div x y = NaN"

fun f_sqrt :: "f64 \<Rightarrow> f64" where
  "f_sqrt (Fin a) = (if a < 0 then NaN else Fin (sqrt a))"
| "f_sqrt PInf = PInf"
| "f_sqrt x = NaN"

text \<open>The comparison \<^verbatim>\<open>x >= 0\<close> of floats: true of \<^verbatim>\<open>inf\<close>, false of \<^verbatim>\<open>nan\<close>.\<close>

fun f_nonneg :: "f64 \<Rightarrow> bool" where
  "f_nonneg (Fin a) = (0 \<le> a)"
| "f_nonneg PInf = True"
| "f_nonneg x = False"

text \<open>
  The mean of an array, as \<^verbatim>\<open>np.mean\<close> and \<^verbatim>\<open>np.average\<close> take it: the sum of the
  entries divided by their number, \<^verbatim>\<open>nan\<close> for the empty array.
\<close>

definition f_mean :: "f64 list \<Rightarrow> f64" where
  "f_mean xs = f_div (foldl f_add (Fin 0) xs) (Fin (real (length xs)))"

definition where_zero_f64 :: "f64 list \<Rightarrow> f64 list" where
  "where_zero_f64 y = map (\<lambda>v. if v = Fin 0 then Fin (1 / 1000000) else v) y"

text \<open>
  The validation of the two sklearn metrics, which also refuses an array that holds
  \<^verbatim>\<open>nan\<close> or an infinity.
\<close>

fun is_finite :: "f64 \<Rightarrow> bool" where
  "is_finite (Fin a) = True"
| "is_finite x = False"

definition check_reg_targets_f64 :: "f64 list \<Rightarrow> f64 list \<Rightarrow> exn option" where
  "check_reg_targets_f64 y_true y_pred =
     (if length y_true \<noteq> length y_pred
      then Some (ValueError ''Found input variables with inconsistent numbers of samples'')
      else if list_ex (\<lambda>v. \<not> is_finite v) y_true
      then Some (ValueError ''Input contains NaN or infinity'')
      else if y_true = []
      then Some (ValueError ''Found array with 0 sample(s) while a minimum of 1 is required'')
      else if list_ex (\<lambda>v. \<not> is_finite v) y_pred
      then Some (ValueError ''Input contains NaN or infinity'')
      else None)"

definition mean_squared_error_f64 :: "f64 list \<Rightarrow> f64 list \<Rightarrow> f64 result" where
  "mean_squared_error_f64 y_true y_pred =
     (case check_reg_targets_f64 y_true y_pred of
        Some e \<Rightarrow> Inl e
      | None \<Rightarrow> Inr (f_mean (map2 (\<lambda>a p. f_mul (f_sub a p) (f_sub a p)) y_true y_pred)))"

definition mean_absolute_error_f64 :: "f64 list \<Rightarrow> f64 list \<Rightarrow> f64 result" where
  "mean_absolute_error_f64 y_true y_pred =
     (case check_reg_targets_f64 y_true y_pred of
        Some e \<Rightarrow> Inl e
      | None \<Rightarrow> Inr (f_mean (map2 (\<lambda>a p. f_abs (f_sub p a)) y_true y_pred)))"

record metric_set_f64 =
  RMSE_f64 :: f64
  MAE_f64 :: f64
  SMAPE_f64 :: f64

text \<open>\<^verbatim>\<open>calculate_metrics\<close>, lines 22 to 30, on such floats.\<close>

definition calculate_metrics_f64 :: "f64 list \<Rightarrow> f64 list \<Rightarrow> metric_set_f64 result" where
  "calculate_metrics_f64 y_true_in y_pred_in =
     (let y_true = where_zero_f64 y_true_in;
          y_pred = where_zero_f64 y_pred_in
      in case mean_squared_error_f64 y_true y_pred of
           Inl e \<Rightarrow> Inl e
         | Inr mse \<Rightarrow>
             (case mean_absolute_error_f64 y_true y_pred of
                Inl e \<Rightarrow> Inl e
              | Inr mean_abs \<Rightarrow>
                  Inr \<lparr>RMSE_f64 = f_sqrt mse, MAE_f64 = mean_abs,
                       SMAPE_f64 = f_mul (Fin 100)
                         (f_mean (map2 (\<lambda>a p. f_div (f_mul (Fin 2) (f_abs (f_sub a p)))
                                                  (f_add (f_abs a) (f_abs p)))
                                    y_true y_pred))\<rparr>))"

section \<open>Slices, shifts and the lag matrix\<close>

text \<open>
  The slices \<^verbatim>\<open>a[:-k]\<close> and \<^verbatim>\<open>a[-k:]\<close> of Python, numpy and pandas, for a
  positive literal \<open>k\<close>. Slices never raise: on a sequence shorter than \<open>k\<close> the first
  is empty and the second is the whole sequence.
\<close>

definition but_last_n :: "nat \<Rightarrow> 'a list \<Rightarrow> 'a list" where
  "but_last_n k a = take (length a - k) a"

definition last_n :: "nat \<Rightarrow> 'a list \<Rightarrow> 'a list" where
  "last_n k a = drop (length a - k) a"

text \<open>
  \<^verbatim>\<open>time_series.shift(i)\<close> of pandas: the values move \<open>i\<close> places towards the end,
  the length stays, and the first \<open>i\<close> places hold \<^verbatim>\<open>NaN\<close>, here \<open>None\<close>.
\<close>

definition shift :: "series \<Rightarrow> nat \<Rightarrow> real option list" where
  "shift time_series i =
     replicate (min i (length time_series)) None @
     map Some (take (length time_series - i) time_series)"

text \<open>
  \<^verbatim>\<open>np.array([time_series.shift(i) for i in range(1, lags + 1)]).T[lags:]\<close>, the
  first line of both lag-based adapters: one row per time step from \<open>lags\<close> on, with the
  \<open>lags\<close> previous observations. With \<open>lags = 0\<close> numpy builds an array without rows,
  as \<open>transpose []\<close> is.
\<close>

definition lag_matrix :: "series \<Rightarrow> nat \<Rightarrow> real option list list" where
  "lag_matrix time_series lags =
     drop lags (transpose (map (shift time_series) [1..<lags + 1]))"

section \<open>The forecasting libraries\<close>

text \<open>
  statsmodels, xgboost and keras are not part of the script. The adapters are written
  against a record of the library entry points they call: \<open>'m\<close> is a fitted model, and
  \<open>'s\<close> is the state of the libraries' random number generators, which fitting may read
  and advance (the script sets no seed). Constructing a model and fitting it are one
  entry; each may raise.
\<close>

datatype layer = LSTM nat string bool | Dense nat | Dropout real

record ('m, 's) libraries =
  ExponentialSmoothing_fit ::
    "series \<Rightarrow> string option \<Rightarrow> string option \<Rightarrow> nat \<Rightarrow> bool \<Rightarrow> 's \<Rightarrow> 'm result \<times> 's"
  ARIMA_fit :: "series \<Rightarrow> nat \<times> nat \<times> nat \<Rightarrow> 's \<Rightarrow> 'm result \<times> 's"
  SARIMAX_fit ::
    "series \<Rightarrow> nat \<times> nat \<times> nat \<Rightarrow> nat \<times> nat \<times> nat \<times> nat \<Rightarrow> 's \<Rightarrow> 'm result \<times> 's"
  model_forecast :: "'m \<Rightarrow> nat \<Rightarrow> series result"
  XGBRegressor_fit ::
    "real \<Rightarrow> nat \<Rightarrow> nat \<Rightarrow> real option list list \<Rightarrow> real list \<Rightarrow> 's \<Rightarrow> 'm result \<times> 's"
  XGBRegressor_predict :: "'m \<Rightarrow> real option list list \<Rightarrow> series result"
  Sequential_fit ::
    "layer list \<Rightarrow> real option list list list \<Rightarrow> real list \<Rightarrow> nat \<Rightarrow> nat \<Rightarrow> 's
       \<Rightarrow> 'm result \<times> 's"
  Sequential_predict :: "'m \<Rightarrow> real option list list list \<Rightarrow> real list list result"

text \<open>
  The shape of one sample's output, as keras derives it from the shape of one sample's
  input: an LSTM layer takes a sequence of feature vectors and returns a sequence of
  \<open>units\<close>-vectors or, when it does not return sequences, one \<open>units\<close>-vector; a dense
  layer replaces the last axis by its units; dropout keeps the shape. \<open>None\<close> is a
  stack that keras refuses to build.
\<close>

fun layer_shape :: "layer \<Rightarrow> nat list \<Rightarrow> nat list option" where
  "layer_shape (LSTM units activation return_sequences) [timesteps, features] =
     Some (if return_sequences then [timesteps, units] else [units])"
| "layer_shape (LSTM units activation return_sequences) shape = None"
| "layer_shape (Dense units) [] = None"
| "layer_shape (Dense units) shape = Some (butlast shape @ [units])"
| "layer_shape (Dropout rate) shape = Some shape"

fun output_shape :: "layer list \<Rightarrow> nat list \<Rightarrow> nat list option" where
  "output_shape [] shape = Some shape"
| "output_shape (layer # layers) shape =
     (case layer_shape layer shape of
        None \<Rightarrow> None
      | Some shape' \<Rightarrow> output_shape layers shape')"

section \<open>The four adapters\<close>

text \<open>
  \<^verbatim>\<open>run_ets_model\<close>, lines 46 to 54: the model is fitted on \<^verbatim>\<open>time_series\<close> as it is
  passed, and twelve steps are forecast.
\<close>

definition run_ets_model ::
  "('m, 's) libraries \<Rightarrow> series \<Rightarrow> string \<Rightarrow> string \<Rightarrow> bool \<Rightarrow> nat \<Rightarrow> 's \<Rightarrow> series result \<times> 's"
where
  "run_ets_model L time_series trend seasonal damped_trend seasonal_periods s =
     (case ExponentialSmoothing_fit L time_series
             (if trend \<noteq> ''none'' then Some trend else None)
             (if seasonal \<noteq> ''none'' then Some seasonal else None)
             seasonal_periods damped_trend s of
        (Inl e, s') \<Rightarrow> (Inl e, s')
      | (Inr ets_model, s') \<Rightarrow> (model_forecast L ets_model 12, s'))"

text \<open>\<^verbatim>\<open>run_arima_model\<close>, lines 56 to 66.\<close>

definition run_arima_model ::
  "('m, 's) libraries \<Rightarrow> series \<Rightarrow> nat \<Rightarrow> nat \<Rightarrow> nat \<Rightarrow> nat \<Rightarrow> nat \<Rightarrow> nat \<Rightarrow> nat \<Rightarrow> bool \<Rightarrow> 's
     \<Rightarrow> series result \<times> 's"
where
  "run_arima_model L time_series p d q P D Q m use_seasonality s =
     (case (if use_seasonality
            then SARIMAX_fit L time_series (p, d, q) (P, D, Q, m) s
            else ARIMA_fit L time_series (p, d, q) s) of
        (Inl e, s') \<Rightarrow> (Inl e, s')
      | (Inr model, s') \<Rightarrow> (model_forecast L model 12, s'))"

text \<open>
  \<^verbatim>\<open>run_xgboost_model\<close>, lines 68 to 77. There is no check of the length of the
  series: the slices decide what the regressor is given.
\<close>

definition run_xgboost_model ::
  "('m, 's) libraries \<Rightarrow> series \<Rightarrow> nat \<Rightarrow> real \<Rightarrow> nat \<Rightarrow> nat \<Rightarrow> 's \<Rightarrow> series result \<times> 's"
where
  "run_xgboost_model L time_series lags learning_rate n_estimators max_depth s =
     (let X = lag_matrix time_series lags;
          y = drop lags time_series
      in case XGBRegressor_fit L learning_rate n_estimators max_depth
                (but_last_n 12 X) (but_last_n 12 y) s of
           (Inl e, s') \<Rightarrow> (Inl e, s')
         | (Inr model, s') \<Rightarrow> (XGBRegressor_predict L model (last_n 12 X), s'))"

text \<open>
  \<^verbatim>\<open>run_lstm_model\<close>, lines 79 to 91. \<^verbatim>\<open>X.shape[1]\<close> raises \<^verbatim>\<open>IndexError\<close> when
  \<open>lags = 0\<close>, the array being one-dimensional then. The reshape puts every feature in
  a list of its own, the layers are stacked as the loop stacks them, and
  \<^verbatim>\<open>flatten\<close> concatenates the rows of the prediction.
\<close>

definition run_lstm_model ::
  "('m, 's) libraries \<Rightarrow> series \<Rightarrow> nat \<Rightarrow> nat \<Rightarrow> nat \<Rightarrow> real \<Rightarrow> nat \<Rightarrow> nat \<Rightarrow> 's
     \<Rightarrow> series result \<times> 's"
where
  "run_lstm_model L time_series lags lstm_units lstm_layers dropout epochs batch_size s =
     (let X = lag_matrix time_series lags;
          y = drop lags time_series
      in if lags = 0 then (Inl (IndexError ''tuple index out of range''), s)
         else
           let X3 = map (map (\<lambda>v. [v])) X;
               model = replicate (lstm_layers - 1) (LSTM lstm_units ''relu'' True) @
                       [LSTM lstm_units ''relu'' False, Dense 1, Dropout dropout]
           in case Sequential_fit L model (but_last_n 12 X3) (but_last_n 12 y)
                     epochs batch_size s of
                (Inl e, s') \<Rightarrow> (Inl e, s')
              | (Inr fitted, s') \<Rightarrow>
                  (case Sequential_predict L fitted (last_n 12 X3) of
                     Inl e \<Rightarrow> (Inl e, s')
                   | Inr pred \<Rightarrow> (Inr (concat pred), s')))"

section \<open>The Run Forecast handler\<close>

text \<open>
  The sidebar values the handler reads. The fields carry the prefix \<open>cfg_\<close>, the
  script's names being the parameter names of the adapters.
\<close>

record config =
  cfg_seasonal :: string
  cfg_trend :: string
  cfg_damped_trend :: bool
  cfg_seasonal_periods :: nat
  cfg_p :: nat
  cfg_d :: nat
  cfg_q :: nat
  cfg_use_seasonality :: bool
  cfg_P :: nat
  cfg_D :: nat
  cfg_Q :: nat
  cfg_m :: nat
  cfg_lags :: nat
  cfg_learning_rate :: real
  cfg_n_estimators :: nat
  cfg_max_depth :: nat
  cfg_lstm_units :: nat
  cfg_lstm_layers :: nat
  cfg_dropout :: real
  cfg_epochs :: nat
  cfg_batch_size :: nat

text \<open>
  Lines 180 to 185: the four adapters are submitted to the pool. A future holds the
  forecast or the exception of its task. The tasks are run here in the order of
  submission; their interleaving in the pool is not modelled.
\<close>

definition submit_all ::
  "('m, 's) libraries \<Rightarrow> series \<Rightarrow> config \<Rightarrow> 's \<Rightarrow> (string \<times> series result) list \<times> 's"
where
  "submit_all L time_series c s0 =
     (let (ets, s1) = run_ets_model L time_series (cfg_trend c) (cfg_seasonal c)
                        (cfg_damped_trend c) (cfg_seasonal_periods c) s0;
          (arima, s2) = run_arima_model L time_series (cfg_p c) (cfg_d c) (cfg_q c)
                          (cfg_P c) (cfg_D c) (cfg_Q c) (cfg_m c) (cfg_use_seasonality c) s1;
          (xgboost, s3) = run_xgboost_model L time_series (cfg_lags c) (cfg_learning_rate c)
                            (cfg_n_estimators c) (cfg_max_depth c) s2;
          (lstm, s4) = run_lstm_model L time_series (cfg_lags c) (cfg_lstm_units c)
                         (cfg_lstm_layers c) (cfg_dropout c) (cfg_epochs c)
                         (cfg_batch_size c) s3
      in ([(''ETS'', ets), (''ARIMA'', arima), (''XGBoost'', xgboost), (''LSTM'', lstm)], s4))"

text \<open>
  Line 189, the body of the \<^verbatim>\<open>try\<close>: \<^verbatim>\<open>future.result()\<close> returns the forecast or
  raises the exception of the task, and \<open>calculate_metrics\<close> compares the forecast with
  the last twelve observations.
\<close>

definition score :: "series \<Rightarrow> series result \<Rightarrow> metric_set result" where
  "score time_series future =
     (case future of
        Inl e \<Rightarrow> Inl e
      | Inr forecast \<Rightarrow> calculate_metrics (last_n 12 time_series) forecast)"

text \<open>
  Lines 187 to 192, the loop over the futures. The accumulator is the dictionary
  \<^verbatim>\<open>results\<close>, in insertion order, and the messages given to \<^verbatim>\<open>st.error\<close>, each
  kept as the method's name and the exception. An exception raised in the \<^verbatim>\<open>try\<close>
  is caught and reported; \<^verbatim>\<open>results\<close> gets no entry then. The progress bar is
  left out.
\<close>

fun collect_results ::
  "series \<Rightarrow> (string \<times> series result) list \<Rightarrow>
   (string \<times> metric_set) list \<times> (string \<times> exn) list \<Rightarrow>
   (string \<times> metric_set) list \<times> (string \<times> exn) list"
where
  "collect_results time_series [] acc = acc"
| "collect_results time_series ((model, future) # rest) (results, messages) =
     (case score time_series future of
        Inl e \<Rightarrow> collect_results time_series rest (results, messages @ [(model, e)])
      | Inr metrics \<Rightarrow>
          collect_results time_series rest (AList.update model metrics results, messages))"

text \<open>
  Lines 200 to 205: every adapter is called a second time, with the arguments of the
  first call, outside any \<^verbatim>\<open>try\<close>. An exception leaves the dictionary display and
  ends the handler.
\<close>

definition plot_forecasts ::
  "('m, 's) libraries \<Rightarrow> series \<Rightarrow> config \<Rightarrow> 's \<Rightarrow> (string \<times> series) list result \<times> 's"
where
  "plot_forecasts L time_series c s0 =
     (case run_ets_model L time_series (cfg_trend c) (cfg_seasonal c)
             (cfg_damped_trend c) (cfg_seasonal_periods c) s0 of
        (Inl e, s1) \<Rightarrow> (Inl e, s1)
      | (Inr ets, s1) \<Rightarrow>
     (case run_arima_model L time_series (cfg_p c) (cfg_d c) (cfg_q c)
             (cfg_P c) (cfg_D c) (cfg_Q c) (cfg_m c) (cfg_use_seasonality c) s1 of
        (Inl e, s2) \<Rightarrow> (Inl e, s2)
      | (Inr arima, s2) \<Rightarrow>
     (case run_xgboost_model L time_series (cfg_lags c) (cfg_learning_rate c)
             (cfg_n_estimators c) (cfg_max_depth c) s2 of
        (Inl e, s3) \<Rightarrow> (Inl e, s3)
      | (Inr xgboost, s3) \<Rightarrow>
     (case run_lstm_model L time_series (cfg_lags c) (cfg_lstm_units c)
             (cfg_lstm_layers c) (cfg_dropout c) (cfg_epochs c) (cfg_batch_size c) s3 of
        (Inl e, s4) \<Rightarrow> (Inl e, s4)
      | (Inr lstm, s4) \<Rightarrow>
          (Inr [(''ETS Forecast'', ets), (''ARIMA Forecast'', arima),
                (''XGBoost Forecast'', xgboost), (''LSTM Forecast'', lstm)], s4)))))"

text \<open>
  Lines 207 and 208: each forecast is drawn against twelve x positions, and matplotlib
  raises \<^verbatim>\<open>ValueError\<close> for a forecast of any other length.
\<close>

definition ax_plot :: "(string \<times> series) list \<Rightarrow> unit result" where
  "ax_plot forecasts =
     (case find (\<lambda>(label, forecast). length forecast \<noteq> 12) forecasts of
        Some _ \<Rightarrow> Inl (ValueError ''x and y must have same first dimension'')
      | None \<Rightarrow> Inr ())"

text \<open>
  What a press of the button leaves behind. A handler that runs to its last line has
  filled \<^verbatim>\<open>results\<close> (shown as the metrics table), reported its messages and drawn
  \<^verbatim>\<open>forecasts\<close>. A handler ended by an uncaught exception has shown only the messages
  reported before.
\<close>

record run =
  results :: "(string \<times> metric_set) list"
  st_errors :: "(string \<times> exn) list"
  forecasts :: "(string \<times> series) list"

datatype outcome = Completed run | Aborted "(string \<times> exn) list" exn

definition run_forecast ::
  "('m, 's) libraries \<Rightarrow> series \<Rightarrow> config \<Rightarrow> 's \<Rightarrow> outcome \<times> 's"
where
  "run_forecast L time_series c s0 =
     (let (futures, s1) = submit_all L time_series c s0;
          (res, msgs) = collect_results time_series futures ([], [])
      in case plot_forecasts L time_series c s1 of
           (Inl e, s2) \<Rightarrow> (Aborted msgs e, s2)
         | (Inr fcs, s2) \<Rightarrow>
             (case ax_plot fcs of
                Inl e \<Rightarrow> (Aborted msgs e, s2)
              | Inr _ \<Rightarrow> (Completed \<lparr>results = res, st_errors = msgs, forecasts = fcs\<rparr>, s2)))"

text \<open>
  An adapter call is deterministic when its result does not depend on the state of the
  random number generators.
\<close>

definition deterministic :: "('s \<Rightarrow> 'a \<times> 's) \<Rightarrow> bool" where
  "deterministic f = (\<forall>s s'. fst (f s) = fst (f s'))"

section \<open>Stand-in libraries and inputs for concrete runs\<close>

text \<open>
  A small implementation of the library record, to run the script's code on concrete
  series. A fitted model is one number and the generator state is a counter.
  Exponential smoothing with a seasonal component refuses a series shorter than two
  seasonal cycles, as statsmodels does, and otherwise carries the last observation
  forward; so does ARIMA. The regressor accepts any training set and predicts its last
  label for every row. The network refuses an empty training set; with \<open>seeded\<close> false
  it behaves like the regressor, with \<open>seeded\<close> true every fit draws from the generator
  and adds the draw to its prediction.
\<close>

definition toy_libraries :: "bool \<Rightarrow> (real, nat) libraries" where
  "toy_libraries seeded =
     \<lparr>ExponentialSmoothing_fit = (\<lambda>ts trend seasonal seasonal_periods damped s.
          (if ts = [] then Inl (ValueError ''endog is empty'')
           else if seasonal \<noteq> None \<and> length ts < 2 * seasonal_periods
           then Inl (ValueError ''Cannot compute initial seasonals using heuristic method with less than two full seasonal cycles in the data.'')
           else Inr (last ts), s)),
      ARIMA_fit = (\<lambda>ts order s.
          (if ts = [] then Inl (ValueError ''endog is empty'') else Inr (last ts), s)),
      SARIMAX_fit = (\<lambda>ts order seasonal_order s.
          (if ts = [] then Inl (ValueError ''endog is empty'') else Inr (last ts), s)),
      model_forecast = (\<lambda>model steps. Inr (replicate steps model)),
      XGBRegressor_fit = (\<lambda>learning_rate n_estimators max_depth X y s.
          (Inr (if y = [] then 1 / 2 else last y), s)),
      XGBRegressor_predict = (\<lambda>model X. Inr (map (\<lambda>row. model) X)),
      Sequential_fit = (\<lambda>layers X y epochs batch_size s.
          (if X = [] then Inl (ValueError ''Expect x to be a non-empty array or dataset.'')
           else Inr (last y + (if seeded then real s else 0)), Suc s)),
      Sequential_predict = (\<lambda>model X. Inr (map (\<lambda>row. [model]) X))\<rparr>"

text \<open>
  A second stand-in, whose network keeps the shape of its output: a fitted model is a
  number and the number of values predicted for one sample, which the network takes
  from its stack of layers and the length of its training samples.
\<close>

definition shaped_libraries :: "(real \<times> nat, nat) libraries" where
  "shaped_libraries =
     \<lparr>ExponentialSmoothing_fit = (\<lambda>ts trend seasonal seasonal_periods damped s.
          (if ts = [] then Inl (ValueError ''endog is empty'')
           else if seasonal \<noteq> None \<and> length ts < 2 * seasonal_periods
           then Inl (ValueError ''Cannot compute initial seasonals using heuristic method with less than two full seasonal cycles in the data.'')
           else Inr (last ts, 1), s)),
      ARIMA_fit = (\<lambda>ts order s.
          (if ts = [] then Inl (ValueError ''endog is empty'') else Inr (last ts, 1), s)),
      SARIMAX_fit = (\<lambda>ts order seasonal_order s.
          (if ts = [] then Inl (ValueError ''endog is empty'') else Inr (last ts, 1), s)),
      model_forecast = (\<lambda>model steps. Inr (replicate steps (fst model))),
      XGBRegressor_fit = (\<lambda>learning_rate n_estimators max_depth X y s.
          (Inr (if y = [] then 1 / 2 else last y, 1), s)),
      XGBRegressor_predict = (\<lambda>model X. Inr (map (\<lambda>row. fst model) X)),
      Sequential_fit = (\<lambda>layers X y epochs batch_size s.
          (if X = [] then Inl (ValueError ''Expect x to be a non-empty array or dataset.'')
           else case output_shape layers [length (hd X), 1] of
                  None \<Rightarrow> Inl (ValueError ''Input is incompatible with the layer'')
                | Some shape \<Rightarrow> Inr (last y, prod_list shape), Suc s)),
      Sequential_predict = (\<lambda>model X. Inr (map (\<lambda>row. replicate (snd model) (fst model)) X))\<rparr>"

text \<open>The values the sidebar starts with.\<close>

definition default_config :: config where
  "default_config =
     \<lparr>cfg_seasonal = ''add'', cfg_trend = ''add'', cfg_damped_trend = False,
      cfg_seasonal_periods = 12,
      cfg_p = 1, cfg_d = 1, cfg_q = 1, cfg_use_seasonality = False,
      cfg_P = 0, cfg_D = 0, cfg_Q = 0, cfg_m = 1,
      cfg_lags = 5, cfg_learning_rate = 1 / 10, cfg_n_estimators = 100, cfg_max_depth = 6,
      cfg_lstm_units = 50, cfg_lstm_layers = 1, cfg_dropout = 2 / 10, cfg_epochs = 10,
      cfg_batch_size = 32\<rparr>"

text \<open>Three series: twenty, thirty and ten observations.\<close>

definition series20 :: series where
  "series20 = [1, 2, 3, 4, 5, 6, 7, 8, 9, 10, 11, 12, 13, 14, 15, 16, 17, 18, 19, 20]"

definition series30 :: series where
  "series30 = [1, 2, 3, 4, 5, 6, 7, 8, 9, 10, 11, 12, 13, 14, 15, 16, 17, 18, 19, 20,
               21, 22, 23, 24, 25, 26, 27, 28, 29, 30]"

definition series10 :: series where
  "series10 = [1, 2, 3, 4, 5, 6, 7, 8, 9, 10]"

section \<open>Properties of the metric function\<close>

lemma where_zero_nz: "v \<in> set (where_zero y) \<Longrightarrow> v \<noteq> 0"
  by (auto simp: where_zero_def)

lemma length_where_zero: "length (where_zero y) = length y"
  by (simp add: where_zero_def)

lemma sum_list_map2_nth:
  "length xs = length ys \<Longrightarrow>
     sum_list (map2 f xs ys) = (\<Sum>i<length xs. f (xs ! i) (ys ! i))"
proof (induction xs ys rule: list_induct2)
  case Nil
  then show ?case by simp
next
  case (Cons x xs y ys)
  have "(\<Sum>i<Suc (length xs). f ((x # xs) ! i) ((y # ys) ! i)) =
        f x y + (\<Sum>i<length xs. f (xs ! i) (ys ! i))"
    by (simp add: sum.lessThan_Suc_shift del: sum.lessThan_Suc)
  with Cons show ?case by simp
qed

lemma smape_terms_defined:
  "length a = length p \<Longrightarrow> \<forall>v\<in>set a. v \<noteq> 0 \<Longrightarrow>
     map2 (\<lambda>a p. np_divide (2 * \<bar>a - p\<bar>) (\<bar>a\<bar> + \<bar>p\<bar>)) a p =
     map Some (map2 (\<lambda>a p. 2 * \<bar>a - p\<bar> / (\<bar>a\<bar> + \<bar>p\<bar>)) a p)"
proof (induction a p rule: list_induct2)
  case Nil
  then show ?case by simp
next
  case (Cons x xs y ys)
  from Cons.prems have "x \<noteq> 0" by simp
  then have "\<bar>x\<bar> + \<bar>y\<bar> \<noteq> 0" by arith
  with Cons show ?case by (simp add: np_divide_def)
qed

lemma np_mean_Some:
  "xs \<noteq> [] \<Longrightarrow> np_mean (map Some xs) = Some (sum_list xs / real (length xs))"
  by (auto simp: np_mean_def comp_def)

lemma calculate_metrics_ok:
  assumes "length a = length p" "a \<noteq> []"
  shows "calculate_metrics a p =
     Inr \<lparr>RMSE = sqrt (sum_list (map2 (\<lambda>a p. (a - p)\<^sup>2) (where_zero a) (where_zero p)) / real (length a)),
          MAE = sum_list (map2 (\<lambda>a p. \<bar>a - p\<bar>) (where_zero a) (where_zero p)) / real (length a),
          SMAPE = Some (100 * (sum_list (map2 (\<lambda>a p. 2 * \<bar>a - p\<bar> / (\<bar>a\<bar> + \<bar>p\<bar>)) (where_zero a) (where_zero p)) / real (length a)))\<rparr>"
proof -
  have chk: "check_reg_targets (where_zero a) (where_zero p) = None"
    using assms by (simp add: check_reg_targets_def where_zero_def)
  have nz: "\<forall>v\<in>set (where_zero a). v \<noteq> 0" using where_zero_nz by blast
  have ne: "map2 (\<lambda>a p. 2 * \<bar>a - p\<bar> / (\<bar>a\<bar> + \<bar>p\<bar>)) (where_zero a) (where_zero p) \<noteq> []"
    using assms by (cases a; cases p) (simp_all add: where_zero_def)
  have len: "length (map2 (\<lambda>a p. 2 * \<bar>a - p\<bar> / (\<bar>a\<bar> + \<bar>p\<bar>)) (where_zero a) (where_zero p)) = length a"
    using assms by (simp add: where_zero_def)
  have eq: "map2 (\<lambda>a p. np_divide (2 * \<bar>a - p\<bar>) (\<bar>a\<bar> + \<bar>p\<bar>)) (where_zero a) (where_zero p)
     = map Some (map2 (\<lambda>a p. 2 * \<bar>a - p\<bar> / (\<bar>a\<bar> + \<bar>p\<bar>)) (where_zero a) (where_zero p))"
    by (rule smape_terms_defined[OF _ nz]) (simp add: length_where_zero assms)
  have sm: "np_mean (map2 (\<lambda>a p. np_divide (2 * \<bar>a - p\<bar>) (\<bar>a\<bar> + \<bar>p\<bar>)) (where_zero a) (where_zero p))
     = Some (sum_list (map2 (\<lambda>a p. 2 * \<bar>a - p\<bar> / (\<bar>a\<bar> + \<bar>p\<bar>)) (where_zero a) (where_zero p)) / real (length a))"
    unfolding eq np_mean_Some[OF ne] len ..
  show ?thesis
    unfolding calculate_metrics_def Let_def mean_squared_error_def mean_absolute_error_def
    by (simp add: chk sm length_where_zero)
qed

lemma where_zero_idem: "where_zero (where_zero y) = where_zero y"
  by (simp add: where_zero_def)

lemma smape_term_bounds:
  fixes a p :: real
  shows "0 \<le> 2 * \<bar>a - p\<bar> / (\<bar>a\<bar> + \<bar>p\<bar>)" "2 * \<bar>a - p\<bar> / (\<bar>a\<bar> + \<bar>p\<bar>) \<le> 2"
proof -
  show "0 \<le> 2 * \<bar>a - p\<bar> / (\<bar>a\<bar> + \<bar>p\<bar>)" by simp
  show "2 * \<bar>a - p\<bar> / (\<bar>a\<bar> + \<bar>p\<bar>) \<le> 2"
  proof (cases "\<bar>a\<bar> + \<bar>p\<bar> = 0")
    case True
    then have "a = 0" "p = 0" by arith+
    then show ?thesis by simp
  next
    case False
    then have pos: "0 < \<bar>a\<bar> + \<bar>p\<bar>" by arith
    have "\<bar>a - p\<bar> \<le> \<bar>a\<bar> + \<bar>p\<bar>" by arith
    then show ?thesis using pos by (simp add: divide_le_eq)
  qed
qed

lemma sum_list_bounds:
  fixes xs :: "real list"
  assumes "\<forall>x\<in>set xs. l \<le> x \<and> x \<le> u"
  shows "l * real (length xs) \<le> sum_list xs \<and> sum_list xs \<le> u * real (length xs)"
  using assms by (induction xs) (auto simp: algebra_simps)

text \<open>
  Claim C6, as amended. On two sequences of the same positive length
  \<open>calculate_metrics\<close> returns the three formulas of the specification, RMSE and MAE
  included, evaluated on the sequences in which every zero has been replaced by
  \<open>1e-6\<close>: the replacement precedes all three metrics, and no division by zero occurs.
\<close>

theorem calculate_metrics_refines_guarded_spec:
  assumes "length a = length p" "a \<noteq> []"
  shows "calculate_metrics a p = Inr (evaluate_spec (where_zero a) (where_zero p))"
  unfolding calculate_metrics_ok[OF assms] evaluate_spec_def Let_def where_zero_idem
  using assms by (simp add: sum_list_map2_nth length_where_zero)

theorem calculate_metrics_refines_guarded_spec_witness: "calculate_metrics [0, 2] [1, 0] = Inr (evaluate_spec (where_zero [0, 2]) (where_zero [1, 0]))"
  using calculate_metrics_refines_guarded_spec[of "[0, 2]" "[1, 0]"] by simp

text \<open>
  Claim C6 as the specification states it fails: on \<open>[0]\<close> against \<open>[1]\<close> the RMSE and
  the MAE of the given values are \<open>1\<close>, and the function returns \<open>0.999999\<close> for both.
\<close>

theorem calculate_metrics_not_raw_rmse_mae:
  "map_sum id MAE (calculate_metrics [0] [1]) = Inr (999999 / 1000000) \<and>
   MAE (evaluate_spec [0] [1]) = 1 \<and>
   map_sum id RMSE (calculate_metrics [0] [1]) = Inr (999999 / 1000000) \<and>
   RMSE (evaluate_spec [0] [1]) = 1 \<and>
   calculate_metrics [0] [1] \<noteq> Inr (evaluate_spec [0] [1])"
proof -
  have sq: "sqrt ((999999 / 1000000)\<^sup>2) = 999999 / 1000000"
    by (rule real_sqrt_unique) simp_all
  have m: "calculate_metrics [0] [1] =
      Inr \<lparr>RMSE = sqrt ((999999 / 1000000)\<^sup>2), MAE = 999999 / 1000000,
           SMAPE = Some (100 * (2 * (999999 / 1000000) / (1000001 / 1000000)))\<rparr>"
    by (simp add: calculate_metrics_def mean_squared_error_def mean_absolute_error_def
        check_reg_targets_def where_zero_def np_mean_def np_divide_def power2_eq_square)
  have e: "MAE (evaluate_spec [0] [1]) = 1" "RMSE (evaluate_spec [0] [1]) = 1"
    by (simp_all add: evaluate_spec_def where_zero_def)
  have "calculate_metrics [0] [1] \<noteq> Inr (evaluate_spec [0] [1])"
  proof
    assume "calculate_metrics [0] [1] = Inr (evaluate_spec [0] [1])"
    then have "map_sum id MAE (calculate_metrics [0] [1]) = Inr (MAE (evaluate_spec [0] [1]))"
      by simp
    then show False unfolding m e by simp
  qed
  then show ?thesis unfolding m sq using e by simp
qed

text \<open>
  Claim C7, as amended. \<open>calculate_metrics\<close> has no check of its own and no exception
  type of its own: it raises exactly when, and exactly what, the input validation of the
  first sklearn call raises on the two arrays. For sequences of different lengths that
  is the builtin \<^verbatim>\<open>ValueError\<close> about inconsistent numbers of samples, for two empty
  sequences the \<^verbatim>\<open>ValueError\<close> about an array without samples. Nothing is truncated
  or broadcast before.
\<close>

theorem calculate_metrics_fails_in_sklearn_validation:
  "(\<forall>e. calculate_metrics a p = Inl e \<longleftrightarrow>
         check_reg_targets (where_zero a) (where_zero p) = Some e) \<and>
   (length a \<noteq> length p \<longrightarrow>
      calculate_metrics a p =
        Inl (ValueError ''Found input variables with inconsistent numbers of samples'')) \<and>
   (length a = length p \<and> a = [] \<longrightarrow>
      calculate_metrics a p =
        Inl (ValueError ''Found array with 0 sample(s) while a minimum of 1 is required''))"
proof -
  have 1: "calculate_metrics a p = Inl e \<longleftrightarrow>
           check_reg_targets (where_zero a) (where_zero p) = Some e" for e
    by (auto simp: calculate_metrics_def mean_squared_error_def mean_absolute_error_def Let_def
        split: option.splits)
  have 2: "calculate_metrics a p =
        Inl (ValueError ''Found input variables with inconsistent numbers of samples'')"
    if "length a \<noteq> length p"
    using that by (simp add: 1 check_reg_targets_def length_where_zero)
  have 3: "calculate_metrics a p =
        Inl (ValueError ''Found array with 0 sample(s) while a minimum of 1 is required'')"
    if "length a = length p \<and> a = []"
  proof -
    from that have "a = []" "p = []" by auto
    then have "check_reg_targets (where_zero a) (where_zero p) =
        Some (ValueError ''Found array with 0 sample(s) while a minimum of 1 is required'')"
      by (simp add: check_reg_targets_def where_zero_def)
    then show ?thesis by (simp only: 1)
  qed
  from 1 2 3 show ?thesis by blast
qed

theorem calculate_metrics_fails_in_sklearn_validation_witness:
  "length [1, 2 :: real] \<noteq> length [1 :: real] \<and>
   calculate_metrics [1, 2] [1] =
     Inl (ValueError ''Found input variables with inconsistent numbers of samples'')"
  using calculate_metrics_fails_in_sklearn_validation[of "[1, 2]" "[1]"] by simp

text \<open>
  Claim C7 as the specification states it fails: the exception raised on sequences of
  different lengths and on empty sequences is a plain \<^verbatim>\<open>ValueError\<close> with sklearn's
  message, the class of every other failure in the script, and not an error typed as a
  dimension mismatch.
\<close>

theorem calculate_metrics_raises_plain_value_error:
  "calculate_metrics [1, 2, 3] [1, 2] =
     Inl (ValueError ''Found input variables with inconsistent numbers of samples'') \<and>
   calculate_metrics [] [] =
     Inl (ValueError ''Found array with 0 sample(s) while a minimum of 1 is required'') \<and>
   check_reg_targets (where_zero [1, 2, 3]) (where_zero [1, 2]) =
     Some (ValueError ''Found input variables with inconsistent numbers of samples'')"
  by (simp add: calculate_metrics_def mean_squared_error_def check_reg_targets_def where_zero_def)

text \<open>
  For the bounds, the floats that overflow. The largest finite float64 is at least
  \<open>2^1023\<close>; sums of squares and of absolute values are \<open>>= 0\<close>, an infinity included;
  and the terms of the symmetric percentage error are computed without overflow when
  the inputs are at most a quarter of the largest finite float64.
\<close>

lemma max_f64_ge: "2 ^ 1023 \<le> max_f64"
proof -
  have "(1::real) \<le> 2 - 1 / 2 ^ 52" by simp
  then have "1 * 2 ^ 1023 \<le> (2 - 1 / 2 ^ 52) * (2 ^ 1023 :: real)"
    by (rule mult_right_mono) simp
  then show ?thesis by (simp add: max_f64_def)
qed

lemma max_f64_big: "2 ^ 64 \<le> max_f64"
proof -
  have "(2::real) ^ 64 \<le> 2 ^ 1023" by (rule power_increasing) simp_all
  with max_f64_ge show ?thesis by linarith
qed

lemma max_f64_pos: "0 < max_f64" "200 \<le> max_f64" "1 / 1000000 \<le> max_f64 / 4"
proof -
  have "(2::real) ^ 10 \<le> 2 ^ 64" by (rule power_increasing) simp_all
  then have "(1024::real) \<le> 2 ^ 64" by simp
  with max_f64_big show "0 < max_f64" "200 \<le> max_f64" "1 / 1000000 \<le> max_f64 / 4"
    by linarith+
qed

lemma overflow_Fin: "\<bar>r\<bar> \<le> max_f64 \<Longrightarrow> overflow r = Fin r"
  by (auto simp: overflow_def)

lemma overflow_nonneg: "0 \<le> r \<Longrightarrow> f_nonneg (overflow r)"
  using max_f64_pos(1) by (auto simp: overflow_def)

lemma f_add_nonneg: "f_nonneg x \<Longrightarrow> f_nonneg y \<Longrightarrow> f_nonneg (f_add x y)"
  by (cases x; cases y) (simp_all add: overflow_nonneg)

lemma foldl_f_add_nonneg:
  "f_nonneg acc \<Longrightarrow> \<forall>x\<in>set xs. f_nonneg x \<Longrightarrow> f_nonneg (foldl f_add acc xs)"
  by (induction xs arbitrary: acc) (simp_all add: f_add_nonneg)

lemma f_mean_nonneg:
  assumes "xs \<noteq> []" "\<forall>x\<in>set xs. f_nonneg x"
  shows "f_nonneg (f_mean xs)"
proof -
  have n: "0 < real (length xs)" using assms(1) by simp
  have "f_nonneg (foldl f_add (Fin 0) xs)"
    using assms(2) by (intro foldl_f_add_nonneg) simp_all
  then show ?thesis
    unfolding f_mean_def using n
    by (cases "foldl f_add (Fin 0) xs") (simp_all add: overflow_nonneg)
qed

lemma f_sub_Fin: "f_sub (Fin a) (Fin b) = overflow (a - b)"
  by (simp add: f_sub_def)

lemma overflow_not_NaN: "overflow r \<noteq> NaN"
  by (simp add: overflow_def)

lemma square_nonneg: "f_nonneg (f_mul (overflow r) (overflow r))"
  using overflow_not_NaN[of r] by (cases "overflow r") (simp_all add: overflow_nonneg)

lemma abs_nonneg: "f_nonneg (f_abs (overflow r))"
  using overflow_not_NaN[of r] by (cases "overflow r") simp_all

lemma f_sqrt_nonneg: "f_nonneg x \<Longrightarrow> f_nonneg (f_sqrt x)"
  by (cases x) auto

lemma where_zero_f64_Fin: "where_zero_f64 (map Fin y) = map Fin (where_zero y)"
  by (simp add: where_zero_f64_def where_zero_def)

lemma check_reg_targets_f64_Fin:
  "length a = length p \<Longrightarrow> a \<noteq> [] \<Longrightarrow> check_reg_targets_f64 (map Fin a) (map Fin p) = None"
  by (simp add: check_reg_targets_f64_def list_ex_iff)

lemma smape_term_Fin:
  assumes "\<bar>x\<bar> \<le> max_f64 / 4" "\<bar>y\<bar> \<le> max_f64 / 4" "x \<noteq> 0"
  shows "f_div (f_mul (Fin 2) (f_abs (f_sub (Fin x) (Fin y)))) (f_add (f_abs (Fin x)) (f_abs (Fin y)))
         = Fin (2 * \<bar>x - y\<bar> / (\<bar>x\<bar> + \<bar>y\<bar>))"
proof -
  have d: "\<bar>x - y\<bar> \<le> max_f64 / 2" using assms by arith
  then have d1: "overflow (x - y) = Fin (x - y)"
    using max_f64_pos(1) by (intro overflow_Fin) arith
  have d2: "overflow (2 * \<bar>x - y\<bar>) = Fin (2 * \<bar>x - y\<bar>)"
    using d by (intro overflow_Fin) simp
  have s: "overflow (\<bar>x\<bar> + \<bar>y\<bar>) = Fin (\<bar>x\<bar> + \<bar>y\<bar>)"
    using assms max_f64_pos(1) by (intro overflow_Fin) arith
  have nz: "\<bar>x\<bar> + \<bar>y\<bar> \<noteq> 0" using assms(3) by arith
  have "\<bar>2 * \<bar>x - y\<bar> / (\<bar>x\<bar> + \<bar>y\<bar>)\<bar> \<le> 2"
    using smape_term_bounds[of x y] by simp
  then have q: "overflow (2 * \<bar>x - y\<bar> / (\<bar>x\<bar> + \<bar>y\<bar>)) = Fin (2 * \<bar>x - y\<bar> / (\<bar>x\<bar> + \<bar>y\<bar>))"
    using max_f64_pos(2) by (intro overflow_Fin) linarith
  show ?thesis
    by (simp add: f_sub_Fin d1 d2 s nz q)
qed

lemma smape_terms_Fin:
  assumes "length a = length p" "\<forall>v\<in>set a. \<bar>v\<bar> \<le> max_f64 / 4 \<and> v \<noteq> 0"
    "\<forall>v\<in>set p. \<bar>v\<bar> \<le> max_f64 / 4"
  shows "map2 (\<lambda>a p. f_div (f_mul (Fin 2) (f_abs (f_sub a p))) (f_add (f_abs a) (f_abs p)))
           (map Fin a) (map Fin p) =
         map Fin (map2 (\<lambda>a p. 2 * \<bar>a - p\<bar> / (\<bar>a\<bar> + \<bar>p\<bar>)) a p)"
  using assms
proof (induction a p rule: list_induct2)
  case Nil
  then show ?case by simp
next
  case (Cons x xs y ys)
  from Cons.prems
  have "f_div (f_mul (Fin 2) (f_abs (f_sub (Fin x) (Fin y)))) (f_add (f_abs (Fin x)) (f_abs (Fin y)))
         = Fin (2 * \<bar>x - y\<bar> / (\<bar>x\<bar> + \<bar>y\<bar>))"
    by (intro smape_term_Fin) simp_all
  moreover from Cons have "map2 (\<lambda>a p. f_div (f_mul (Fin 2) (f_abs (f_sub a p))) (f_add (f_abs a) (f_abs p)))
           (map Fin xs) (map Fin ys) =
         map Fin (map2 (\<lambda>a p. 2 * \<bar>a - p\<bar> / (\<bar>a\<bar> + \<bar>p\<bar>)) xs ys)"
    by simp
  ultimately show ?case
    by (simp del: f_add.simps f_abs.simps f_mul.simps f_div.simps)
qed

lemma foldl_f_add_Fin:
  "0 \<le> acc \<Longrightarrow> \<forall>t\<in>set ts. 0 \<le> t \<Longrightarrow> acc + sum_list ts \<le> max_f64 \<Longrightarrow>
     foldl f_add (Fin acc) (map Fin ts) = Fin (acc + sum_list ts)"
proof (induction ts arbitrary: acc)
  case Nil
  then show ?case by simp
next
  case (Cons t ts)
  have "0 \<le> sum_list ts" using Cons.prems(2) by (intro sum_list_nonneg) simp
  then have "\<bar>acc + t\<bar> \<le> max_f64" using Cons.prems by simp
  then have "overflow (acc + t) = Fin (acc + t)" by (rule overflow_Fin)
  moreover have "foldl f_add (Fin (acc + t)) (map Fin ts) = Fin (acc + t + sum_list ts)"
    using Cons.prems by (intro Cons.IH) (simp_all add: add.assoc)
  ultimately show ?case by (simp add: add.assoc)
qed

lemma f_mean_Fin:
  assumes "ts \<noteq> []" "\<forall>t\<in>set ts. 0 \<le> t \<and> t \<le> B" "B * real (length ts) \<le> max_f64"
  shows "f_mean (map Fin ts) = Fin (sum_list ts / real (length ts))"
proof -
  have n: "1 \<le> real (length ts)" using assms(1) by (cases ts) simp_all
  from sum_list_bounds[OF assms(2)]
  have S: "0 \<le> sum_list ts" "sum_list ts \<le> B * real (length ts)" by simp_all
  with assms(3) have Smax: "0 + sum_list ts \<le> max_f64" by linarith
  have sum: "foldl f_add (Fin 0) (map Fin ts) = Fin (0 + sum_list ts)"
    using assms(2) Smax by (intro foldl_f_add_Fin) simp_all
  have "sum_list ts * 1 \<le> sum_list ts * real (length ts)"
    using S(1) n by (intro mult_left_mono) simp_all
  then have "sum_list ts / real (length ts) \<le> sum_list ts"
    using n by (simp add: divide_le_eq)
  moreover have "0 \<le> sum_list ts / real (length ts)" using S(1) by simp
  ultimately have "\<bar>sum_list ts / real (length ts)\<bar> \<le> max_f64" using Smax by simp
  then have o: "overflow (sum_list ts / real (length ts)) = Fin (sum_list ts / real (length ts))"
    by (rule overflow_Fin)
  show ?thesis unfolding f_mean_def sum using n o assms(1) by simp
qed

text \<open>
  Where nothing overflows the two models of the metric function agree: on inputs of at
  most \<open>2^500\<close> in absolute value, in arrays shorter than \<open>2^20\<close>, the floats returned
  are the reals returned.
\<close>

lemma calculate_metrics_f64_agrees:
  assumes len: "length a = length p" "a \<noteq> []" "length a < 2 ^ 20"
      and small: "\<forall>v\<in>set a \<union> set p. \<bar>v\<bar> \<le> 2 ^ 500"
  shows "\<exists>m s. calculate_metrics a p = Inr m \<and> SMAPE m = Some s \<and>
           calculate_metrics_f64 (map Fin a) (map Fin p) =
             Inr \<lparr>RMSE_f64 = Fin (RMSE m), MAE_f64 = Fin (MAE m), SMAPE_f64 = Fin s\<rparr>"
proof -
  let ?a = "where_zero a" and ?p = "where_zero p"
  let ?n = "real (length a)"
  let ?SQ = "map2 (\<lambda>a p. (a - p)\<^sup>2) ?a ?p"
  let ?AB = "map2 (\<lambda>a p. \<bar>a - p\<bar>) ?a ?p"
  let ?T = "map2 (\<lambda>a p. 2 * \<bar>a - p\<bar> / (\<bar>a\<bar> + \<bar>p\<bar>)) ?a ?p"
  have p500: "(2::real) ^ 500 * 4 \<le> max_f64"
  proof -
    have "(2::real) ^ 500 * 4 = 2 ^ 502" by simp
    also have "\<dots> \<le> 2 ^ 1023" by (rule power_increasing) simp_all
    finally show ?thesis using max_f64_ge by linarith
  qed
  have one: "(1::real) \<le> 2 ^ 500" by simp
  have sa: "\<forall>v\<in>set ?a. \<bar>v\<bar> \<le> 2 ^ 500 \<and> v \<noteq> 0"
    using small one by (auto simp: where_zero_def)
  have sp: "\<forall>v\<in>set ?p. \<bar>v\<bar> \<le> 2 ^ 500"
    using small one by (auto simp: where_zero_def)
  have len': "length ?a = length ?p" "?a \<noteq> []"
    using len by (simp_all add: where_zero_def)
  have lens: "length ?SQ = length a" "length ?AB = length a" "length ?T = length a"
    by (simp_all add: length_where_zero len(1))
  have ne: "?SQ \<noteq> []" "?AB \<noteq> []" "?T \<noteq> []"
    using lens len(2) by auto
  have n20: "?n \<le> 2 ^ 20"
    using len(3) by (metis less_imp_le of_nat_le_iff of_nat_numeral of_nat_power)
  have diff: "\<bar>x - y\<bar> \<le> 2 ^ 501" if "(x, y) \<in> set (zip ?a ?p)" for x y
  proof -
    from that sa sp have "\<bar>x\<bar> \<le> 2 ^ 500" "\<bar>y\<bar> \<le> 2 ^ 500"
      by (auto dest: set_zip_leftD set_zip_rightD)
    then show ?thesis by simp
  qed
  have p501: "(2::real) ^ 501 \<le> max_f64"
  proof -
    have "(2::real) ^ 501 \<le> 2 ^ 1023" by (rule power_increasing) simp_all
    with max_f64_ge show ?thesis by linarith
  qed
  have sqb: "(x - y)\<^sup>2 \<le> 2 ^ 1002" if "(x, y) \<in> set (zip ?a ?p)" for x y
  proof -
    have "(x - y)\<^sup>2 = \<bar>x - y\<bar>\<^sup>2" by simp
    also have "\<dots> \<le> (2 ^ 501)\<^sup>2" using diff[OF that] by (intro power_mono) simp_all
    also have "\<dots> = (2::real) ^ 1002" by (simp add: power_mult [symmetric])
    finally show ?thesis .
  qed
  have p1002: "(2::real) ^ 1002 * 2 ^ 20 \<le> max_f64"
  proof -
    have "(2::real) ^ 1002 * 2 ^ 20 = 2 ^ 1022" by (simp add: power_add [symmetric])
    also have "\<dots> \<le> 2 ^ 1023" by (rule power_increasing) simp_all
    finally show ?thesis using max_f64_ge by linarith
  qed
  have p1002a: "(2::real) ^ 1002 \<le> max_f64"
  proof -
    have "(2::real) ^ 1002 \<le> 2 ^ 1023" by (rule power_increasing) simp_all
    with max_f64_ge show ?thesis by linarith
  qed
  have sq_terms: "map2 (\<lambda>a p. f_mul (f_sub a p) (f_sub a p)) (map Fin ?a) (map Fin ?p) = map Fin ?SQ"
  proof -
    have "f_mul (f_sub (Fin x) (Fin y)) (f_sub (Fin x) (Fin y)) = Fin ((x - y)\<^sup>2)"
      if "(x, y) \<in> set (zip ?a ?p)" for x y
    proof -
      have "overflow (x - y) = Fin (x - y)"
        using diff[OF that] p501 by (intro overflow_Fin) linarith
      moreover have "\<bar>(x - y) * (x - y)\<bar> \<le> max_f64"
      proof -
        have "\<bar>(x - y) * (x - y)\<bar> = (x - y)\<^sup>2" by (simp add: power2_eq_square)
        also have "\<dots> \<le> 2 ^ 1002" by (rule sqb[OF that])
        also have "\<dots> \<le> max_f64" by (rule p1002a)
        finally show ?thesis .
      qed
      then have "overflow ((x - y) * (x - y)) = Fin ((x - y) * (x - y))"
        by (rule overflow_Fin)
      ultimately show ?thesis by (simp add: f_sub_Fin power2_eq_square)
    qed
    then show ?thesis by (auto simp: zip_map_map)
  qed
  have ab_terms: "map2 (\<lambda>a p. f_abs (f_sub p a)) (map Fin ?a) (map Fin ?p) = map Fin ?AB"
  proof -
    have "f_abs (f_sub (Fin y) (Fin x)) = Fin \<bar>x - y\<bar>"
      if "(x, y) \<in> set (zip ?a ?p)" for x y
    proof -
      have "\<bar>y - x\<bar> \<le> max_f64" using diff[OF that] p501 by linarith
      then have "overflow (y - x) = Fin (y - x)" by (rule overflow_Fin)
      then show ?thesis by (simp add: f_sub_Fin abs_minus_commute)
    qed
    then show ?thesis by (auto simp: zip_map_map)
  qed
  have quarter: "(2::real) ^ 500 \<le> max_f64 / 4" using p500 by simp
  have tm_terms: "map2 (\<lambda>a p. f_div (f_mul (Fin 2) (f_abs (f_sub a p))) (f_add (f_abs a) (f_abs p)))
               (map Fin ?a) (map Fin ?p) = map Fin ?T"
    using len'(1) sa sp quarter by (intro smape_terms_Fin) force+
  have sq_mean: "f_mean (map Fin ?SQ) = Fin (sum_list ?SQ / ?n)"
  proof -
    have "\<forall>t\<in>set ?SQ. 0 \<le> t \<and> t \<le> 2 ^ 1002" using sqb by auto
    moreover have "(2::real) ^ 1002 * real (length ?SQ) \<le> max_f64"
    proof -
      have "(2::real) ^ 1002 * ?n \<le> 2 ^ 1002 * 2 ^ 20"
        using n20 by (intro mult_left_mono) simp_all
      with p1002 show ?thesis unfolding lens by linarith
    qed
    ultimately show ?thesis using f_mean_Fin[OF ne(1)] unfolding lens by blast
  qed
  have ab_mean: "f_mean (map Fin ?AB) = Fin (sum_list ?AB / ?n)"
  proof -
    have "\<forall>t\<in>set ?AB. 0 \<le> t \<and> t \<le> 2 ^ 501" using diff by auto
    moreover have "(2::real) ^ 501 * real (length ?AB) \<le> max_f64"
    proof -
      have "(2::real) ^ 501 * ?n \<le> 2 ^ 501 * 2 ^ 20"
        using n20 by (intro mult_left_mono) simp_all
      also have "\<dots> = (2::real) ^ 521" by (simp add: power_add [symmetric])
      also have "\<dots> \<le> 2 ^ 1023" by (rule power_increasing) simp_all
      finally show ?thesis unfolding lens using max_f64_ge by linarith
    qed
    ultimately show ?thesis using f_mean_Fin[OF ne(2)] unfolding lens by blast
  qed
  have bd: "\<forall>x\<in>set ?T. 0 \<le> x \<and> x \<le> 2" using smape_term_bounds by auto
  have tm_mean: "f_mean (map Fin ?T) = Fin (sum_list ?T / ?n)"
  proof -
    have "(2::real) * real (length ?T) \<le> max_f64"
    proof -
      have "(2::real) * ?n \<le> 2 * 2 ^ 20" using n20 by simp
      also have "\<dots> = (2::real) ^ 21" by simp
      also have "\<dots> \<le> 2 ^ 1023" by (rule power_increasing) simp_all
      finally show ?thesis unfolding lens using max_f64_ge by linarith
    qed
    with bd show ?thesis using f_mean_Fin[OF ne(3)] unfolding lens by blast
  qed
  from sum_list_bounds[OF bd]
  have S: "0 \<le> sum_list ?T" "sum_list ?T \<le> 2 * ?n" unfolding lens by simp_all
  have npos: "0 < ?n" using len(2) by simp
  have "0 \<le> 100 * (sum_list ?T / ?n)" "100 * (sum_list ?T / ?n) \<le> 200"
    using S npos by (simp_all add: divide_le_eq)
  then have o100: "overflow (100 * (sum_list ?T / ?n)) = Fin (100 * (sum_list ?T / ?n))"
    using max_f64_pos(2) by (intro overflow_Fin) linarith
  have sqn: "0 \<le> sum_list ?SQ / ?n"
    by (intro divide_nonneg_nonneg sum_list_nonneg) auto
  have chk: "check_reg_targets_f64 (map Fin ?a) (map Fin ?p) = None"
    using len' by (rule check_reg_targets_f64_Fin)
  let ?sqf = "map2 (\<lambda>a p. f_mul (f_sub a p) (f_sub a p)) (map Fin ?a) (map Fin ?p)"
  let ?abf = "map2 (\<lambda>a p. f_abs (f_sub p a)) (map Fin ?a) (map Fin ?p)"
  let ?tmf = "map2 (\<lambda>a p. f_div (f_mul (Fin 2) (f_abs (f_sub a p))) (f_add (f_abs a) (f_abs p)))
               (map Fin ?a) (map Fin ?p)"
  have cm: "calculate_metrics_f64 (map Fin a) (map Fin p) =
      Inr \<lparr>RMSE_f64 = f_sqrt (f_mean ?sqf), MAE_f64 = f_mean ?abf,
           SMAPE_f64 = f_mul (Fin 100) (f_mean ?tmf)\<rparr>"
    by (simp add: calculate_metrics_f64_def mean_squared_error_f64_def
        mean_absolute_error_f64_def where_zero_f64_Fin chk Let_def)
  have r: "f_sqrt (Fin (sum_list ?SQ / ?n)) = Fin (sqrt (sum_list ?SQ / ?n))"
    using sqn by simp
  have h: "f_mul (Fin 100) (Fin (sum_list ?T / ?n)) = Fin (100 * (sum_list ?T / ?n))"
    using o100 by simp
  have "calculate_metrics_f64 (map Fin a) (map Fin p) =
      Inr \<lparr>RMSE_f64 = Fin (sqrt (sum_list ?SQ / ?n)), MAE_f64 = Fin (sum_list ?AB / ?n),
           SMAPE_f64 = Fin (100 * (sum_list ?T / ?n))\<rparr>"
    unfolding cm sq_terms ab_terms tm_terms sq_mean ab_mean tm_mean r h ..
  then show ?thesis unfolding calculate_metrics_ok[OF len(1,2)] by simp
qed

text \<open>
  Claim C8, as amended. On two sequences of finite floats of the same positive length
  \<open>calculate_metrics\<close> returns a metric set with \<open>RMSE >= 0\<close> and \<open>MAE >= 0\<close>, where
  either may be \<^verbatim>\<open>inf\<close> after an overflow. When moreover every input is at most a
  quarter of the largest finite float64 in absolute value (and the arrays are shorter
  than \<open>2^63\<close>), SMAPE is a number between \<open>0\<close> and \<open>200\<close>, the one the model on the
  reals returns.
\<close>

theorem calculate_metrics_f64_ranges:
  assumes "length a = length p" "a \<noteq> []"
  shows "\<exists>m. calculate_metrics_f64 (map Fin a) (map Fin p) = Inr m \<and>
           f_nonneg (RMSE_f64 m) \<and> f_nonneg (MAE_f64 m) \<and>
           (length a < 2 ^ 63 \<and> (\<forall>v\<in>set a \<union> set p. \<bar>v\<bar> \<le> max_f64 / 4) \<longrightarrow>
              (\<exists>s. SMAPE_f64 m = Fin s \<and> 0 \<le> s \<and> s \<le> 200 \<and>
                   map_sum id SMAPE (calculate_metrics a p) = Inr (Some s)))"
proof -
  let ?a = "where_zero a" and ?p = "where_zero p"
  let ?sq = "map2 (\<lambda>a p. f_mul (f_sub a p) (f_sub a p)) (map Fin ?a) (map Fin ?p)"
  let ?ab = "map2 (\<lambda>a p. f_abs (f_sub p a)) (map Fin ?a) (map Fin ?p)"
  let ?tm = "map2 (\<lambda>a p. f_div (f_mul (Fin 2) (f_abs (f_sub a p))) (f_add (f_abs a) (f_abs p)))
               (map Fin ?a) (map Fin ?p)"
  let ?T = "map2 (\<lambda>a p. 2 * \<bar>a - p\<bar> / (\<bar>a\<bar> + \<bar>p\<bar>)) ?a ?p"
  have len: "length ?a = length ?p" "?a \<noteq> []"
    using assms by (simp_all add: where_zero_def)
  have chk: "check_reg_targets_f64 (map Fin ?a) (map Fin ?p) = None"
    using len by (rule check_reg_targets_f64_Fin)
  have cm: "calculate_metrics_f64 (map Fin a) (map Fin p) =
      Inr \<lparr>RMSE_f64 = f_sqrt (f_mean ?sq), MAE_f64 = f_mean ?ab,
           SMAPE_f64 = f_mul (Fin 100) (f_mean ?tm)\<rparr>"
    by (simp add: calculate_metrics_f64_def mean_squared_error_f64_def
        mean_absolute_error_f64_def where_zero_f64_Fin chk Let_def)
  have ne: "?sq \<noteq> []" "?ab \<noteq> []"
    using len by (cases ?a; cases ?p; simp)+
  have "\<forall>x\<in>set ?sq. f_nonneg x"
    by (auto simp: zip_map_map f_sub_Fin square_nonneg)
  then have rmse: "f_nonneg (f_sqrt (f_mean ?sq))"
    using ne(1) by (intro f_sqrt_nonneg f_mean_nonneg)
  have "\<forall>x\<in>set ?ab. f_nonneg x"
    by (auto simp: zip_map_map f_sub_Fin abs_nonneg)
  then have mae: "f_nonneg (f_mean ?ab)"
    using ne(2) by (intro f_mean_nonneg)
  have smape: "\<exists>s. f_mul (Fin 100) (f_mean ?tm) = Fin s \<and> 0 \<le> s \<and> s \<le> 200 \<and>
                    map_sum id SMAPE (calculate_metrics a p) = Inr (Some s)"
    if n: "length a < 2 ^ 63" and small: "\<forall>v\<in>set a \<union> set p. \<bar>v\<bar> \<le> max_f64 / 4"
  proof -
    have sa: "\<forall>v\<in>set ?a. \<bar>v\<bar> \<le> max_f64 / 4 \<and> v \<noteq> 0"
      using small max_f64_pos(3) by (auto simp: where_zero_def)
    have sp: "\<forall>v\<in>set ?p. \<bar>v\<bar> \<le> max_f64 / 4"
      using small max_f64_pos(3) by (auto simp: where_zero_def)
    have tm: "?tm = map Fin ?T"
      using len(1) sa sp by (rule smape_terms_Fin)
    have lenT: "length ?T = length a" by (simp add: length_where_zero assms(1))
    have bd: "\<forall>x\<in>set ?T. 0 \<le> x \<and> x \<le> 2"
      using smape_term_bounds by auto
    from sum_list_bounds[OF bd]
    have S: "0 \<le> sum_list ?T" "sum_list ?T \<le> 2 * real (length a)"
      unfolding lenT by simp_all
    have npos: "0 < real (length a)" using assms(2) by simp
    have "real (length a) < 2 ^ 63" using n
      by (metis of_nat_less_iff of_nat_numeral of_nat_power)
    then have "2 * real (length a) \<le> 2 ^ 64" by simp
    with S(2) max_f64_big have Smax: "0 + sum_list ?T \<le> max_f64" by linarith
    have sum: "foldl f_add (Fin 0) (map Fin ?T) = Fin (0 + sum_list ?T)"
      using bd Smax by (intro foldl_f_add_Fin) simp_all
    have mean_bd: "0 \<le> sum_list ?T / real (length a)" "sum_list ?T / real (length a) \<le> 2"
      using S npos by (simp_all add: divide_le_eq)
    have o1: "overflow (sum_list ?T / real (length a)) = Fin (sum_list ?T / real (length a))"
      using mean_bd max_f64_pos(2) by (intro overflow_Fin) linarith
    have o2: "overflow (100 * (sum_list ?T / real (length a))) =
              Fin (100 * (sum_list ?T / real (length a)))"
      using mean_bd max_f64_pos(2) by (intro overflow_Fin) linarith
    have "f_mean (map Fin ?T) = f_div (Fin (sum_list ?T)) (Fin (real (length ?T)))"
      unfolding f_mean_def sum by simp
    also have "\<dots> = overflow (sum_list ?T / real (length a))"
      unfolding lenT using npos by simp
    finally have mean: "f_mean ?tm = Fin (sum_list ?T / real (length a))"
      unfolding tm o1 .
    have "f_mul (Fin 100) (f_mean ?tm) = Fin (100 * (sum_list ?T / real (length a)))"
      unfolding mean using o2 by simp
    moreover have "map_sum id SMAPE (calculate_metrics a p) =
                   Inr (Some (100 * (sum_list ?T / real (length a))))"
      unfolding calculate_metrics_ok[OF assms] by simp
    ultimately show ?thesis using mean_bd by auto
  qed
  show ?thesis unfolding cm using rmse mae smape by auto
qed

theorem calculate_metrics_f64_ranges_witness:
  "\<exists>m s. calculate_metrics_f64 (map Fin [1, 0]) (map Fin [2, 3]) = Inr m \<and>
         f_nonneg (RMSE_f64 m) \<and> f_nonneg (MAE_f64 m) \<and> SMAPE_f64 m = Fin s \<and> 0 \<le> s \<and> s \<le> 200"
proof -
  have small: "\<forall>v\<in>set [1, 0 :: real] \<union> set [2, 3]. \<bar>v\<bar> \<le> max_f64 / 4"
    using max_f64_pos(2) by auto
  have n: "length [1, 0 :: real] < 2 ^ 63" by simp
  from calculate_metrics_f64_ranges[of "[1, 0]" "[2, 3]"] small n show ?thesis by auto
qed

text \<open>
  Claim C8 as the specification states it fails: \<open>1e308\<close> and \<open>-1e308\<close> are finite
  floats, their difference and the sum of their absolute values overflow, and the
  function returns \<open>RMSE = MAE = inf\<close> and \<open>SMAPE = nan\<close>, which is not in \<open>[0, 200]\<close>.
\<close>

theorem calculate_metrics_f64_overflow:
  "10 ^ 308 \<le> max_f64 \<and>
   calculate_metrics_f64 [Fin (10 ^ 308)] [Fin (- (10 ^ 308))] =
     Inr \<lparr>RMSE_f64 = PInf, MAE_f64 = PInf, SMAPE_f64 = NaN\<rparr>"
  by (simp add: calculate_metrics_f64_def mean_squared_error_f64_def mean_absolute_error_f64_def
      check_reg_targets_f64_def where_zero_f64_def f_mean_def f_sub_def overflow_def max_f64_def
      inf_of_sign_def)

text \<open>
  Claim C9. On the all-zero pair \<open>[0, 0, 0]\<close>, \<open>[0, 0, 0]\<close> the function raises
  nothing and returns a defined SMAPE equal to \<open>0\<close>: both arrays become
  \<open>[1e-6, 1e-6, 1e-6]\<close>, so every divisor is \<open>2e-6\<close>.
\<close>

theorem calculate_metrics_all_zero:
  "calculate_metrics [0, 0, 0] [0, 0, 0] = Inr \<lparr>RMSE = 0, MAE = 0, SMAPE = Some 0\<rparr>"
  by (simp add: calculate_metrics_def mean_squared_error_def mean_absolute_error_def
      check_reg_targets_def where_zero_def np_mean_def np_divide_def)

section \<open>Properties of the slices and the lag matrix\<close>

lemma length_shift: "length (shift ts i) = length ts"
  by (simp add: shift_def)

lemma shift_nth:
  assumes "i \<le> t" "t < length ts"
  shows "shift ts i ! t = Some (ts ! (t - i))"
proof -
  have lt: "t - i < length ts - i" using assms by arith
  then have "t - i < length (take (length ts - i) ts)" by simp
  then have "map Some (take (length ts - i) ts) ! (t - i) = Some (take (length ts - i) ts ! (t - i))"
    by (rule nth_map)
  also have "\<dots> = Some (ts ! (t - i))" using lt by simp
  finally show ?thesis using assms by (simp add: shift_def nth_append min_def)
qed

lemma foldr_max_length:
  "xss \<noteq> [] \<Longrightarrow> \<forall>xs\<in>set xss. length xs = n \<Longrightarrow> foldr (\<lambda>xs. max (length xs)) xss 0 = n"
proof (induction xss)
  case Nil
  then show ?case by simp
next
  case (Cons xs xss)
  then show ?case by (cases "xss = []") (auto simp: max_def)
qed

lemma length_transpose_rect:
  "xss \<noteq> [] \<Longrightarrow> \<forall>xs\<in>set xss. length xs = n \<Longrightarrow> length (transpose xss) = n"
  by (simp add: length_transpose foldr_max_length)

lemma nth_transpose_rect:
  assumes "xss \<noteq> []" "\<forall>xs\<in>set xss. length xs = n" "i < n"
  shows "transpose xss ! i = map (\<lambda>xs. xs ! i) xss"
proof -
  have "i < length (transpose xss)"
    using length_transpose_rect[OF assms(1,2)] assms(3) by simp
  then have "transpose xss ! i = map (\<lambda>xs. xs ! i) (filter (\<lambda>ys. i < length ys) xss)"
    by (rule nth_transpose)
  also have "filter (\<lambda>ys. i < length ys) xss = xss"
    using assms by (auto intro: filter_True)
  finally show ?thesis .
qed

lemma length_lag_matrix:
  "length (lag_matrix ts lags) = (if lags = 0 then 0 else length ts - lags)"
proof (cases "lags = 0")
  case True
  then show ?thesis by (simp add: lag_matrix_def)
next
  case False
  then have "map (shift ts) [1..<lags + 1] \<noteq> []" by simp
  moreover have "\<forall>xs\<in>set (map (shift ts) [1..<lags + 1]). length xs = length ts"
    by (auto simp: length_shift)
  ultimately have "length (transpose (map (shift ts) [1..<lags + 1])) = length ts"
    by (rule length_transpose_rect)
  with False show ?thesis by (simp add: lag_matrix_def)
qed

lemma lag_matrix_nth:
  assumes "0 < lags" "r < length ts - lags"
  shows "lag_matrix ts lags ! r = map (\<lambda>i. Some (ts ! (r + lags - i))) [1..<lags + 1]"
proof -
  let ?xss = "map (shift ts) [1..<lags + 1]"
  have ne: "?xss \<noteq> []" using assms by simp
  have len: "\<forall>xs\<in>set ?xss. length xs = length ts" by (auto simp: length_shift)
  have lt: "lags + r < length ts" using assms by simp
  have tl: "length (transpose ?xss) = length ts"
    using ne len by (rule length_transpose_rect)
  have "lag_matrix ts lags ! r = transpose ?xss ! (lags + r)"
    unfolding lag_matrix_def using lt tl by simp
  also have "\<dots> = map (\<lambda>xs. xs ! (lags + r)) ?xss"
    using ne len lt by (rule nth_transpose_rect)
  also have "\<dots> = map (\<lambda>i. Some (ts ! (r + lags - i))) [1..<lags + 1]"
    using lt by (auto simp: shift_nth add.commute)
  finally show ?thesis .
qed

lemma lag_matrix_history:
  "but_last_n k (lag_matrix ts lags) = lag_matrix (but_last_n k ts) lags"
proof (cases "lags = 0")
  case True
  then show ?thesis by (simp add: lag_matrix_def but_last_n_def)
next
  case False
  show ?thesis
  proof (rule nth_equalityI)
    show "length (but_last_n k (lag_matrix ts lags)) = length (lag_matrix (but_last_n k ts) lags)"
      using False by (simp add: but_last_n_def length_lag_matrix)
  next
    fix r assume "r < length (but_last_n k (lag_matrix ts lags))"
    then have r: "r < length ts - lags - k"
      using False by (simp add: but_last_n_def length_lag_matrix)
    then have r1: "r < length ts - lags" and r2: "r < length (but_last_n k ts) - lags"
      by (simp_all add: but_last_n_def)
    have "but_last_n k (lag_matrix ts lags) ! r = lag_matrix ts lags ! r"
      using r False by (simp add: but_last_n_def length_lag_matrix)
    also have "\<dots> = map (\<lambda>i. Some (ts ! (r + lags - i))) [1..<lags + 1]"
      using False r1 by (simp add: lag_matrix_nth)
    also have "\<dots> = map (\<lambda>i. Some (but_last_n k ts ! (r + lags - i))) [1..<lags + 1]"
      using r by (auto simp: but_last_n_def)
    also have "\<dots> = lag_matrix (but_last_n k ts) lags ! r"
      using False r2 by (simp add: lag_matrix_nth)
    finally show "but_last_n k (lag_matrix ts lags) ! r = lag_matrix (but_last_n k ts) lags ! r" .
  qed
qed

lemma labels_history: "but_last_n k (drop lags ts) = drop lags (but_last_n k ts)"
  by (simp add: but_last_n_def drop_take add.commute)

lemma map_but_last_n: "but_last_n k (map f xs) = map f (but_last_n k xs)"
  by (simp add: but_last_n_def take_map)

lemma last_n_short: "length xs \<le> k \<Longrightarrow> last_n k xs = xs"
  by (simp add: last_n_def)

lemma but_last_n_short: "length xs \<le> k \<Longrightarrow> but_last_n k xs = []"
  by (simp add: but_last_n_def)

lemma length_last_n: "length (last_n k xs) = min k (length xs)"
  by (simp add: last_n_def)

lemma lag_matrix_row_length:
  assumes "row \<in> set (lag_matrix ts lags)"
  shows "length row = lags"
proof -
  from assms obtain r where r: "r < length (lag_matrix ts lags)" and row: "row = lag_matrix ts lags ! r"
    by (auto simp: in_set_conv_nth)
  from r have pos: "0 < lags" and r': "r < length ts - lags"
    by (auto simp: length_lag_matrix split: if_splits)
  show ?thesis unfolding row lag_matrix_nth[OF pos r'] by simp
qed

lemma set_but_last_n: "set (but_last_n k xs) \<subseteq> set xs"
  by (simp add: but_last_n_def set_take_subset)

lemma set_last_n: "set (last_n k xs) \<subseteq> set xs"
  by (simp add: last_n_def set_drop_subset)

lemma output_shape_replicate:
  "output_shape (replicate n (LSTM units activation True) @ rest) [timesteps, features] =
     output_shape rest [timesteps, if n = 0 then features else units]"
  by (induction n arbitrary: features) simp_all

lemma output_shape_stack:
  "output_shape (replicate n (LSTM units activation True) @
                 [LSTM units activation False, Dense 1, Dropout rate]) [timesteps, 1] = Some [1]"
  by (simp add: output_shape_replicate)

section \<open>Properties of the parts of the handler\<close>

lemma update_fresh: "k \<notin> fst ` set al \<Longrightarrow> AList.update k v al = al @ [(k, v)]"
  by (induction al) auto

lemma collect_results_exact:
  assumes "distinct (map fst futures)"
      and "fst ` set futures \<inter> fst ` set res0 = {}"
  shows "collect_results ts futures (res0, msg0) =
     (res0 @ concat (map (\<lambda>(name, future).
                 case score ts future of Inl e \<Rightarrow> [] | Inr metrics \<Rightarrow> [(name, metrics)]) futures),
      msg0 @ concat (map (\<lambda>(name, future).
                 case score ts future of Inl e \<Rightarrow> [(name, e)] | Inr metrics \<Rightarrow> []) futures))"
  using assms
proof (induction futures arbitrary: res0 msg0)
  case Nil
  then show ?case by simp
next
  case (Cons a futures)
  obtain model future where a: "a = (model, future)" by (cases a)
  from Cons.prems a have dist: "distinct (map fst futures)"
    and notin: "model \<notin> fst ` set futures" and fresh: "model \<notin> fst ` set res0"
    and disj: "fst ` set futures \<inter> fst ` set res0 = {}"
    by auto
  show ?case
  proof (cases "score ts future")
    case (Inl e)
    from Cons.IH[OF dist disj, of "msg0 @ [(model, e)]"] Inl a show ?thesis by simp
  next
    case (Inr metrics)
    have disj': "fst ` set futures \<inter> fst ` set (res0 @ [(model, metrics)]) = {}"
      using disj notin by auto
    from Cons.IH[OF dist disj', of msg0] Inr a fresh show ?thesis
      by (simp add: update_fresh)
  qed
qed

lemma submit_all_futures:
  "\<exists>s1 s2 s3. fst (submit_all L ts c s0) =
     [(''ETS'', fst (run_ets_model L ts (cfg_trend c) (cfg_seasonal c)
                       (cfg_damped_trend c) (cfg_seasonal_periods c) s0)),
      (''ARIMA'', fst (run_arima_model L ts (cfg_p c) (cfg_d c) (cfg_q c)
                         (cfg_P c) (cfg_D c) (cfg_Q c) (cfg_m c) (cfg_use_seasonality c) s1)),
      (''XGBoost'', fst (run_xgboost_model L ts (cfg_lags c) (cfg_learning_rate c)
                           (cfg_n_estimators c) (cfg_max_depth c) s2)),
      (''LSTM'', fst (run_lstm_model L ts (cfg_lags c) (cfg_lstm_units c)
                        (cfg_lstm_layers c) (cfg_dropout c) (cfg_epochs c)
                        (cfg_batch_size c) s3))]"
  by (simp add: submit_all_def split_beta Let_def) blast

lemma submit_all_names:
  "map fst (fst (submit_all L ts c s0)) = [''ETS'', ''ARIMA'', ''XGBoost'', ''LSTM'']"
  by (simp add: submit_all_def split_beta Let_def)

lemma plot_forecasts_Inr:
  assumes "fst (plot_forecasts L ts c t0) = Inr fcs"
  shows "\<exists>f1 f2 f3 f4 t1 t2 t3.
     fcs = [(''ETS Forecast'', f1), (''ARIMA Forecast'', f2),
            (''XGBoost Forecast'', f3), (''LSTM Forecast'', f4)] \<and>
     fst (run_ets_model L ts (cfg_trend c) (cfg_seasonal c)
            (cfg_damped_trend c) (cfg_seasonal_periods c) t0) = Inr f1 \<and>
     fst (run_arima_model L ts (cfg_p c) (cfg_d c) (cfg_q c)
            (cfg_P c) (cfg_D c) (cfg_Q c) (cfg_m c) (cfg_use_seasonality c) t1) = Inr f2 \<and>
     fst (run_xgboost_model L ts (cfg_lags c) (cfg_learning_rate c)
            (cfg_n_estimators c) (cfg_max_depth c) t2) = Inr f3 \<and>
     fst (run_lstm_model L ts (cfg_lags c) (cfg_lstm_units c)
            (cfg_lstm_layers c) (cfg_dropout c) (cfg_epochs c) (cfg_batch_size c) t3) = Inr f4"
  using assms unfolding plot_forecasts_def
  by (auto split: prod.splits sum.splits) (metis fst_conv)+

lemma run_forecast_Completed:
  assumes "fst (run_forecast L ts c s0) = Completed r"
  shows "fst (plot_forecasts L ts c (snd (submit_all L ts c s0))) = Inr (forecasts r) \<and>
         ax_plot (forecasts r) = Inr () \<and>
         collect_results ts (fst (submit_all L ts c s0)) ([], []) = (results r, st_errors r)"
  using assms unfolding run_forecast_def
  by (auto simp: split_beta Let_def split: prod.splits sum.splits)

lemma run_forecast_cases:
  "(\<exists>r. fst (run_forecast L ts c s0) = Completed r) \<or>
   (\<exists>msgs e. fst (run_forecast L ts c s0) = Aborted msgs e)"
  by (cases "fst (run_forecast L ts c s0)") auto

text \<open>
  The second call of an adapter is outside any \<^verbatim>\<open>try\<close>: when one of the four
  adapters raises in every state of the generators, the handler ends with an uncaught
  exception, whatever the loop over the futures has caught before.
\<close>

lemma failing_adapter_aborts_run:
  assumes "(\<forall>s. \<exists>e. fst (run_ets_model L ts (cfg_trend c) (cfg_seasonal c)
                        (cfg_damped_trend c) (cfg_seasonal_periods c) s) = Inl e) \<or>
           (\<forall>s. \<exists>e. fst (run_arima_model L ts (cfg_p c) (cfg_d c) (cfg_q c)
                        (cfg_P c) (cfg_D c) (cfg_Q c) (cfg_m c) (cfg_use_seasonality c) s) = Inl e) \<or>
           (\<forall>s. \<exists>e. fst (run_xgboost_model L ts (cfg_lags c) (cfg_learning_rate c)
                        (cfg_n_estimators c) (cfg_max_depth c) s) = Inl e) \<or>
           (\<forall>s. \<exists>e. fst (run_lstm_model L ts (cfg_lags c) (cfg_lstm_units c)
                        (cfg_lstm_layers c) (cfg_dropout c) (cfg_epochs c) (cfg_batch_size c) s) = Inl e)"
  shows "\<exists>msgs e. fst (run_forecast L ts c s0) = Aborted msgs e"
proof -
  have "fst (run_forecast L ts c s0) \<noteq> Completed r" for r
  proof
    assume "fst (run_forecast L ts c s0) = Completed r"
    then have "fst (plot_forecasts L ts c (snd (submit_all L ts c s0))) = Inr (forecasts r)"
      by (simp add: run_forecast_Completed)
    from plot_forecasts_Inr[OF this] assms show False
      by (metis Inl_Inr_False)
  qed
  with run_forecast_cases[of L ts c s0] show ?thesis by blast
qed

section \<open>Runs with the stand-in libraries\<close>

lemmas toy_eval = toy_libraries_def series10_def series20_def series30_def
  lag_matrix_def shift_def but_last_n_def last_n_def run_xgboost_model_def run_lstm_model_def
  run_ets_model_def run_arima_model_def numeral_eq_Suc

lemma toy_ets30:
  "run_ets_model (toy_libraries b) series30 trend ''add'' damped 12 s =
     (Inr [30, 30, 30, 30, 30, 30, 30, 30, 30, 30, 30, 30], s)"
  by (simp add: toy_eval)

lemma toy_arima30:
  "run_arima_model (toy_libraries b) series30 p d q P D Q m False s =
     (Inr [30, 30, 30, 30, 30, 30, 30, 30, 30, 30, 30, 30], s)"
  by (simp add: toy_eval)

lemma toy_xgboost30:
  "run_xgboost_model (toy_libraries b) series30 5 learning_rate n_estimators max_depth s =
     (Inr [18, 18, 18, 18, 18, 18, 18, 18, 18, 18, 18, 18], s)"
  by (simp add: toy_eval)

lemma toy_lstm30:
  "run_lstm_model (toy_libraries b) series30 5 lstm_units lstm_layers dropout epochs batch_size s =
     (Inr (replicate 12 (18 + (if b then real s else 0))), Suc s)"
  by (simp add: toy_eval)

lemma toy_ets20:
  "run_ets_model (toy_libraries b) series20 trend ''add'' damped 12 s =
     (Inl (ValueError ''Cannot compute initial seasonals using heuristic method with less than two full seasonal cycles in the data.''), s)"
  by (simp add: toy_eval)

lemma toy_arima20:
  "run_arima_model (toy_libraries b) series20 p d q P D Q m False s =
     (Inr [20, 20, 20, 20, 20, 20, 20, 20, 20, 20, 20, 20], s)"
  by (simp add: toy_eval)

lemma toy_xgboost20:
  "run_xgboost_model (toy_libraries b) series20 5 learning_rate n_estimators max_depth s =
     (Inr [8, 8, 8, 8, 8, 8, 8, 8, 8, 8, 8, 8], s)"
  by (simp add: toy_eval)

lemma toy_lstm20:
  "run_lstm_model (toy_libraries False) series20 5 lstm_units lstm_layers dropout epochs batch_size s =
     (Inr [8, 8, 8, 8, 8, 8, 8, 8, 8, 8, 8, 8], Suc s)"
  by (simp add: toy_eval)

lemmas metrics_eval = score_def calculate_metrics_def mean_squared_error_def
  mean_absolute_error_def check_reg_targets_def where_zero_def last_n_def series20_def series30_def

lemma toy_submit20:
  "submit_all (toy_libraries False) series20 default_config s =
     ([(''ETS'', Inl (ValueError ''Cannot compute initial seasonals using heuristic method with less than two full seasonal cycles in the data.'')),
       (''ARIMA'', Inr [20, 20, 20, 20, 20, 20, 20, 20, 20, 20, 20, 20]),
       (''XGBoost'', Inr [8, 8, 8, 8, 8, 8, 8, 8, 8, 8, 8, 8]),
       (''LSTM'', Inr [8, 8, 8, 8, 8, 8, 8, 8, 8, 8, 8, 8])], Suc s)"
  by (simp add: submit_all_def default_config_def toy_ets20 toy_arima20 toy_xgboost20 toy_lstm20)

lemma toy_submit30:
  "submit_all (toy_libraries b) series30 default_config s =
     ([(''ETS'', Inr [30, 30, 30, 30, 30, 30, 30, 30, 30, 30, 30, 30]),
       (''ARIMA'', Inr [30, 30, 30, 30, 30, 30, 30, 30, 30, 30, 30, 30]),
       (''XGBoost'', Inr [18, 18, 18, 18, 18, 18, 18, 18, 18, 18, 18, 18]),
       (''LSTM'', Inr (replicate 12 (18 + (if b then real s else 0))))], Suc s)"
  by (simp add: submit_all_def default_config_def toy_ets30 toy_arima30 toy_xgboost30 toy_lstm30)

lemma toy_plot30:
  "plot_forecasts (toy_libraries b) series30 default_config s =
     (Inr [(''ETS Forecast'', [30, 30, 30, 30, 30, 30, 30, 30, 30, 30, 30, 30]),
           (''ARIMA Forecast'', [30, 30, 30, 30, 30, 30, 30, 30, 30, 30, 30, 30]),
           (''XGBoost Forecast'', [18, 18, 18, 18, 18, 18, 18, 18, 18, 18, 18, 18]),
           (''LSTM Forecast'', replicate 12 (18 + (if b then real s else 0)))], Suc s)"
  by (simp add: plot_forecasts_def default_config_def toy_ets30 toy_arima30 toy_xgboost30 toy_lstm30)

lemma toy_plot20:
  "plot_forecasts (toy_libraries False) series20 default_config s =
     (Inl (ValueError ''Cannot compute initial seasonals using heuristic method with less than two full seasonal cycles in the data.''), s)"
  by (simp add: plot_forecasts_def default_config_def toy_ets20)

lemmas shaped_eval = shaped_libraries_def series30_def
  lag_matrix_def shift_def but_last_n_def last_n_def run_xgboost_model_def run_lstm_model_def
  run_ets_model_def run_arima_model_def numeral_eq_Suc

lemma shaped_ets30:
  "run_ets_model shaped_libraries series30 trend ''add'' damped 12 s =
     (Inr [30, 30, 30, 30, 30, 30, 30, 30, 30, 30, 30, 30], s)"
  by (simp add: shaped_eval)

lemma shaped_arima30:
  "run_arima_model shaped_libraries series30 p d q P D Q m False s =
     (Inr [30, 30, 30, 30, 30, 30, 30, 30, 30, 30, 30, 30], s)"
  by (simp add: shaped_eval)

lemma shaped_xgboost30:
  "run_xgboost_model shaped_libraries series30 5 learning_rate n_estimators max_depth s =
     (Inr [18, 18, 18, 18, 18, 18, 18, 18, 18, 18, 18, 18], s)"
  by (simp add: shaped_eval)

lemma shaped_lstm30:
  "run_lstm_model shaped_libraries series30 5 lstm_units lstm_layers dropout epochs batch_size s =
     (Inr [18, 18, 18, 18, 18, 18, 18, 18, 18, 18, 18, 18], Suc s)"
  by (simp add: shaped_eval output_shape_replicate)

lemma shaped_contract:
  "\<forall>stack X y epochs batch_size s fitted s' X' pred timesteps shape.
                 Sequential_fit shaped_libraries stack X y epochs batch_size s = (Inr fitted, s') \<and>
                 Sequential_predict shaped_libraries fitted X' = Inr pred \<and>
                 (\<forall>sample\<in>set X \<union> set X'.
                    length sample = timesteps \<and> (\<forall>cell\<in>set sample. length cell = 1)) \<and>
                 output_shape stack [timesteps, 1] = Some shape \<longrightarrow>
                 length pred = length X' \<and> (\<forall>row\<in>set pred. length row = prod_list shape)"
proof (intro allI impI, elim conjE)
  fix stack :: "layer list" and X X' :: "real option list list list" and y :: "real list"
    and epochs batch_size s s' :: nat and fitted :: "real \<times> nat" and pred timesteps shape
  assume fit: "Sequential_fit shaped_libraries stack X y epochs batch_size s = (Inr fitted, s')"
    and p: "Sequential_predict shaped_libraries fitted X' = Inr pred"
    and samples: "\<forall>sample\<in>set X \<union> set X'.
                    length sample = timesteps \<and> (\<forall>cell\<in>set sample. length cell = 1)"
    and shape: "output_shape stack [timesteps, 1] = Some shape"
  from fit have ne: "X \<noteq> []"
    by (auto simp: shaped_libraries_def split: if_splits)
  then have "hd X \<in> set X" by simp
  with samples have "length (hd X) = timesteps" by blast
  with fit ne shape have "snd fitted = prod_list shape"
    by (auto simp: shaped_libraries_def split: if_splits)
  with p show "length pred = length X' \<and> (\<forall>row\<in>set pred. length row = prod_list shape)"
    by (auto simp: shaped_libraries_def)
qed

section \<open>The claims about the adapters\<close>

text \<open>
  Claim C2, as amended. The two lag-based adapters fit on rows and labels that are built
  from \<^verbatim>\<open>series[:-12]\<close> alone: the training rows \<^verbatim>\<open>X[:-12]\<close> are the lag matrix of
  the series without its last twelve observations, and the labels \<^verbatim>\<open>y[:-12]\<close> are that
  shorter series from position \<open>lags\<close> on. The exponential smoothing and ARIMA adapters
  hand the whole series to the fit. The score of a forecast is computed against
  \<^verbatim>\<open>series[-12:]\<close>.
\<close>

theorem lag_adapters_fit_on_history:
  "run_xgboost_model L ts lags learning_rate n_estimators max_depth s =
     (case XGBRegressor_fit L learning_rate n_estimators max_depth
             (lag_matrix (but_last_n 12 ts) lags) (drop lags (but_last_n 12 ts)) s of
        (Inl e, s') \<Rightarrow> (Inl e, s')
      | (Inr model, s') \<Rightarrow> (XGBRegressor_predict L model (last_n 12 (lag_matrix ts lags)), s')) \<and>
   run_lstm_model L ts lags lstm_units lstm_layers dropout epochs batch_size s =
     (if lags = 0 then (Inl (IndexError ''tuple index out of range''), s)
      else case Sequential_fit L
                  (replicate (lstm_layers - 1) (LSTM lstm_units ''relu'' True) @
                   [LSTM lstm_units ''relu'' False, Dense 1, Dropout dropout])
                  (map (map (\<lambda>v. [v])) (lag_matrix (but_last_n 12 ts) lags))
                  (drop lags (but_last_n 12 ts)) epochs batch_size s of
             (Inl e, s') \<Rightarrow> (Inl e, s')
           | (Inr fitted, s') \<Rightarrow>
               (case Sequential_predict L fitted
                       (map (map (\<lambda>v. [v])) (last_n 12 (lag_matrix ts lags))) of
                  Inl e \<Rightarrow> (Inl e, s')
                | Inr pred \<Rightarrow> (Inr (concat pred), s'))) \<and>
   run_ets_model L ts trend seasonal damped_trend seasonal_periods s =
     (case ExponentialSmoothing_fit L ts
             (if trend \<noteq> ''none'' then Some trend else None)
             (if seasonal \<noteq> ''none'' then Some seasonal else None)
             seasonal_periods damped_trend s of
        (Inl e, s') \<Rightarrow> (Inl e, s')
      | (Inr ets_model, s') \<Rightarrow> (model_forecast L ets_model 12, s')) \<and>
   run_arima_model L ts p d q P D Q m use_seasonality s =
     (case (if use_seasonality then SARIMAX_fit L ts (p, d, q) (P, D, Q, m) s
            else ARIMA_fit L ts (p, d, q) s) of
        (Inl e, s') \<Rightarrow> (Inl e, s')
      | (Inr model, s') \<Rightarrow> (model_forecast L model 12, s')) \<and>
   score ts (Inr forecast) = calculate_metrics (last_n 12 ts) forecast"
proof -
  have X: "but_last_n 12 (lag_matrix ts lags) = lag_matrix (but_last_n 12 ts) lags"
    by (rule lag_matrix_history)
  have y: "but_last_n 12 (drop lags ts) = drop lags (but_last_n 12 ts)"
    by (rule labels_history)
  have X3: "but_last_n 12 (map (map (\<lambda>v. [v])) (lag_matrix ts lags)) =
            map (map (\<lambda>v. [v])) (lag_matrix (but_last_n 12 ts) lags)"
    by (simp add: map_but_last_n X)
  have L3: "last_n 12 (map (map (\<lambda>v. [v])) (lag_matrix ts lags)) =
            map (map (\<lambda>v. [v])) (last_n 12 (lag_matrix ts lags))"
    by (simp add: last_n_def drop_map)
  show ?thesis
    unfolding run_xgboost_model_def run_lstm_model_def run_ets_model_def run_arima_model_def
      score_def Let_def X y X3 L3
    by simp
qed

text \<open>
  Claim C2 as the specification states it fails for the exponential smoothing and ARIMA
  adapters: two series of the same length that agree on \<^verbatim>\<open>series[:-12]\<close> and differ
  only in the last twelve observations get different forecasts from a library that
  carries the last fitted observation forward.
\<close>

theorem ets_arima_fit_reads_holdout:
  "but_last_n 12 series20 = but_last_n 12 (take 8 series20 @ replicate 12 0) \<and>
   length series20 = length (take 8 series20 @ replicate 12 0) \<and>
   fst (run_ets_model (toy_libraries False) series20 ''add'' ''none'' False 12 0) =
     Inr (replicate 12 20) \<and>
   fst (run_ets_model (toy_libraries False) (take 8 series20 @ replicate 12 0)
          ''add'' ''none'' False 12 0) = Inr (replicate 12 0) \<and>
   fst (run_arima_model (toy_libraries False) series20 1 1 1 0 0 0 1 False 0) =
     Inr (replicate 12 20) \<and>
   fst (run_arima_model (toy_libraries False) (take 8 series20 @ replicate 12 0)
          1 1 1 0 0 0 1 False 0) = Inr (replicate 12 0)"
  by (simp add: toy_eval)

text \<open>
  Claim C4, as amended. On a series with \<open>len(series) \<le> lags + 12\<close> the lag-based
  adapters check nothing and raise nothing of their own (but for the \<^verbatim>\<open>IndexError\<close>
  of the reshape when \<open>lags = 0\<close>): the learner is fitted on an empty training set, and
  when the fit returns, the prediction is asked for all rows of the lag matrix, of which
  there are at most twelve. Whether the call fails, and with which exception, is decided
  by the library.
\<close>

theorem short_series_reaches_learner:
  assumes "length ts \<le> lags + 12"
  shows "run_xgboost_model L ts lags learning_rate n_estimators max_depth s =
     (case XGBRegressor_fit L learning_rate n_estimators max_depth [] [] s of
        (Inl e, s') \<Rightarrow> (Inl e, s')
      | (Inr model, s') \<Rightarrow> (XGBRegressor_predict L model (lag_matrix ts lags), s')) \<and>
   run_lstm_model L ts lags lstm_units lstm_layers dropout epochs batch_size s =
     (if lags = 0 then (Inl (IndexError ''tuple index out of range''), s)
      else case Sequential_fit L
                  (replicate (lstm_layers - 1) (LSTM lstm_units ''relu'' True) @
                   [LSTM lstm_units ''relu'' False, Dense 1, Dropout dropout])
                  [] [] epochs batch_size s of
             (Inl e, s') \<Rightarrow> (Inl e, s')
           | (Inr fitted, s') \<Rightarrow>
               (case Sequential_predict L fitted (map (map (\<lambda>v. [v])) (lag_matrix ts lags)) of
                  Inl e \<Rightarrow> (Inl e, s')
                | Inr pred \<Rightarrow> (Inr (concat pred), s'))) \<and>
   length (lag_matrix ts lags) \<le> 12"
proof -
  have len: "length (lag_matrix ts lags) \<le> 12"
    using assms by (auto simp: length_lag_matrix)
  have leny: "length (drop lags ts) \<le> 12" using assms by simp
  have X: "but_last_n 12 (lag_matrix ts lags) = []" "last_n 12 (lag_matrix ts lags) = lag_matrix ts lags"
    using len by (simp_all add: but_last_n_short last_n_short)
  have y: "but_last_n 12 (drop lags ts) = []"
    using leny by (rule but_last_n_short)
  have X3: "but_last_n 12 (map (map (\<lambda>v. [v])) (lag_matrix ts lags)) = []"
    "last_n 12 (map (map (\<lambda>v. [v])) (lag_matrix ts lags)) = map (map (\<lambda>v. [v])) (lag_matrix ts lags)"
    using len by (simp_all add: but_last_n_short last_n_short)
  show ?thesis
    unfolding run_xgboost_model_def run_lstm_model_def Let_def X y X3
    using len by simp
qed

theorem short_series_reaches_learner_witness:
  "length series10 \<le> 5 + 12 \<and>
   run_xgboost_model (toy_libraries False) series10 5 (1 / 10) 100 6 0 =
     (case XGBRegressor_fit (toy_libraries False) (1 / 10) 100 6 [] [] 0 of
        (Inl e, s') \<Rightarrow> (Inl e, s')
      | (Inr model, s') \<Rightarrow>
          (XGBRegressor_predict (toy_libraries False) model (lag_matrix series10 5), s')) \<and>
   length (lag_matrix series10 5) \<le> 12"
  using short_series_reaches_learner[of series10 5 "toy_libraries False" "1 / 10" 100 6 0 50 1 "2 / 10" 10 32]
  by (simp add: series10_def)

text \<open>
  Claim C4 as the specification states it fails: on ten observations with five lags a
  regressor that accepts an empty training set makes the adapter return five
  predictions, not an error and not twelve values; and where the adapter does fail, the
  exception is the one the library raised.
\<close>

theorem short_series_no_insufficient_data:
  "length series10 \<le> 5 + 12 \<and>
   fst (run_xgboost_model (toy_libraries False) series10 5 (1 / 10) 100 6 0) =
     Inr [1 / 2, 1 / 2, 1 / 2, 1 / 2, 1 / 2] \<and>
   fst (run_lstm_model (toy_libraries False) series10 5 50 1 (2 / 10) 10 32 0) =
     Inl (ValueError ''Expect x to be a non-empty array or dataset.'')"
  by (simp add: toy_eval)

text \<open>
  Claim C5. Every adapter call that returns a forecast returns twelve values. The
  libraries are taken to keep their contracts: a forecast of \<open>steps\<close> steps has \<open>steps\<close>
  values, a regressor predicts one value per row, and a fitted network predicts, for
  every sample, as many values as the output shape of its stack of layers has. That the
  stack of \<open>run_lstm_model\<close> ends in one value per sample (a last LSTM layer that
  returns no sequence, then \<^verbatim>\<open>Dense(1)\<close>) is proved. The exponential smoothing and
  ARIMA adapters need nothing of the series; for the lag-based adapters the series has
  at least \<open>lags + 12\<close> observations, which the precondition \<open>len(series) > lags + 12\<close>
  gives, and \<open>lags\<close> is positive.
\<close>

theorem adapters_return_twelve_values:
  assumes fc: "\<forall>model steps f. model_forecast L model steps = Inr f \<longrightarrow> length f = steps"
      and xp: "\<forall>model X f. XGBRegressor_predict L model X = Inr f \<longrightarrow> length f = length X"
      and sp: "\<forall>stack X y epochs batch_size s fitted s' X' pred timesteps shape.
                 Sequential_fit L stack X y epochs batch_size s = (Inr fitted, s') \<and>
                 Sequential_predict L fitted X' = Inr pred \<and>
                 (\<forall>sample\<in>set X \<union> set X'.
                    length sample = timesteps \<and> (\<forall>cell\<in>set sample. length cell = 1)) \<and>
                 output_shape stack [timesteps, 1] = Some shape \<longrightarrow>
                 length pred = length X' \<and> (\<forall>row\<in>set pred. length row = prod_list shape)"
  shows "(\<forall>f. fst (run_ets_model L ts trend seasonal damped_trend seasonal_periods s) = Inr f
              \<longrightarrow> length f = 12) \<and>
         (\<forall>f. fst (run_arima_model L ts p d q P D Q m use_seasonality s) = Inr f
              \<longrightarrow> length f = 12) \<and>
         (0 < lags \<and> lags + 12 \<le> length ts \<longrightarrow>
            (\<forall>f. fst (run_xgboost_model L ts lags learning_rate n_estimators max_depth s) = Inr f
                 \<longrightarrow> length f = 12)) \<and>
         (lags + 12 \<le> length ts \<longrightarrow>
            (\<forall>f. fst (run_lstm_model L ts lags lstm_units lstm_layers dropout epochs batch_size s) = Inr f
                 \<longrightarrow> length f = 12))"
proof -
  have concat1: "length (concat pred) = length pred" if "\<forall>row\<in>set pred. length row = 1"
    for pred :: "real list list"
    using that by (induction pred) auto
  have ets: "length f = 12"
    if "fst (run_ets_model L ts trend seasonal damped_trend seasonal_periods s) = Inr f" for f
    using that fc by (auto simp: run_ets_model_def split: prod.splits sum.splits)
  have arima: "length f = 12"
    if "fst (run_arima_model L ts p d q P D Q m use_seasonality s) = Inr f" for f
    using that fc by (auto simp: run_arima_model_def split: prod.splits sum.splits if_splits)
  have xgb: "length f = 12"
    if "0 < lags" "lags + 12 \<le> length ts"
      "fst (run_xgboost_model L ts lags learning_rate n_estimators max_depth s) = Inr f" for f
  proof -
    have rows: "length (last_n 12 (lag_matrix ts lags)) = 12"
      using that(1,2) by (simp add: length_last_n length_lag_matrix)
    from that(3) xp rows show ?thesis
      by (auto simp: run_xgboost_model_def Let_def split: prod.splits sum.splits)
  qed
  have lstm: "length f = 12"
    if len: "lags + 12 \<le> length ts"
      and ok: "fst (run_lstm_model L ts lags lstm_units lstm_layers dropout epochs batch_size s) = Inr f"
    for f
  proof -
    let ?X3 = "map (map (\<lambda>v. [v])) (lag_matrix ts lags)"
    let ?stack = "replicate (lstm_layers - 1) (LSTM lstm_units ''relu'' True) @
                  [LSTM lstm_units ''relu'' False, Dense 1, Dropout dropout]"
    from ok have pos: "0 < lags"
      by (auto simp: run_lstm_model_def Let_def split: if_splits)
    from ok pos obtain fitted s' pred where
      fit: "Sequential_fit L ?stack (but_last_n 12 ?X3) (but_last_n 12 (drop lags ts))
              epochs batch_size s = (Inr fitted, s')"
      and p: "Sequential_predict L fitted (last_n 12 ?X3) = Inr pred"
      and f: "f = concat pred"
      by (auto simp: run_lstm_model_def Let_def split: prod.splits sum.splits)
    have samples: "\<forall>sample\<in>set (but_last_n 12 ?X3) \<union> set (last_n 12 ?X3).
                     length sample = lags \<and> (\<forall>cell\<in>set sample. length cell = 1)"
    proof -
      have "\<forall>sample\<in>set ?X3. length sample = lags \<and> (\<forall>cell\<in>set sample. length cell = 1)"
        by (auto simp: lag_matrix_row_length)
      with set_but_last_n[of 12 ?X3] set_last_n[of 12 ?X3] show ?thesis by blast
    qed
    have shape: "output_shape ?stack [lags, 1] = Some [1]"
      by (rule output_shape_stack)
    from sp fit p samples shape
    have "length pred = length (last_n 12 ?X3) \<and> (\<forall>row\<in>set pred. length row = prod_list [1])"
      by blast
    moreover have "length (last_n 12 ?X3) = 12"
      using pos len by (simp add: length_last_n length_lag_matrix)
    ultimately show ?thesis using f concat1 by simp
  qed
  from ets arima xgb lstm show ?thesis by blast
qed

theorem adapters_return_twelve_values_witness:
  "(0::nat) < 5 \<and> 5 + 12 \<le> length series30 \<and>
   (\<exists>f. fst (run_ets_model shaped_libraries series30 ''add'' ''add'' False 12 0) = Inr f \<and>
        length f = 12) \<and>
   (\<exists>f. fst (run_arima_model shaped_libraries series30 1 1 1 0 0 0 1 False 0) = Inr f \<and>
        length f = 12) \<and>
   (\<exists>f. fst (run_xgboost_model shaped_libraries series30 5 (1 / 10) 100 6 0) = Inr f \<and>
        length f = 12) \<and>
   (\<exists>f. fst (run_lstm_model shaped_libraries series30 5 50 1 (2 / 10) 10 32 0) = Inr f \<and>
        length f = 12)"
proof -
  have fc: "\<forall>model steps f. model_forecast shaped_libraries model steps = Inr f \<longrightarrow>
              length f = steps"
    by (auto simp: shaped_libraries_def)
  have xp: "\<forall>model X f. XGBRegressor_predict shaped_libraries model X = Inr f \<longrightarrow>
              length f = length X"
    by (auto simp: shaped_libraries_def)
  have lags: "(0::nat) < 5" "5 + 12 \<le> length series30"
    by (simp_all add: series30_def)
  note len = adapters_return_twelve_values[OF fc xp shaped_contract, of series30 "''add''" "''add''" False 12 0
      1 1 1 0 0 0 1 False 5 "1 / 10" 100 6 50 1 "2 / 10" 10 32]
  show ?thesis
    using len lags
    by (simp add: shaped_ets30 shaped_arima30 shaped_xgboost30 shaped_lstm30)
qed

section \<open>The claims about the handler\<close>

text \<open>
  Claim C1, evaluated on twenty observations with the sidebar's defaults: exponential
  smoothing with a seasonal period of twelve raises, the other three adapters return
  their forecasts. The loop over the futures catches the exception and reports it, and
  the second, unguarded call of \<open>run_ets_model\<close> raises it again: the handler is
  aborted, and neither the plot nor the metrics of the three other methods are shown.
\<close>

theorem run_forecast_aborts_when_ets_fails:
  "fst (submit_all (toy_libraries False) series20 default_config 0) =
     [(''ETS'', Inl (ValueError ''Cannot compute initial seasonals using heuristic method with less than two full seasonal cycles in the data.'')),
      (''ARIMA'', Inr [20, 20, 20, 20, 20, 20, 20, 20, 20, 20, 20, 20]),
      (''XGBoost'', Inr [8, 8, 8, 8, 8, 8, 8, 8, 8, 8, 8, 8]),
      (''LSTM'', Inr [8, 8, 8, 8, 8, 8, 8, 8, 8, 8, 8, 8])] \<and>
   fst (run_forecast (toy_libraries False) series20 default_config 0) =
     Aborted [(''ETS'', ValueError ''Cannot compute initial seasonals using heuristic method with less than two full seasonal cycles in the data.'')]
       (ValueError ''Cannot compute initial seasonals using heuristic method with less than two full seasonal cycles in the data.'')"
  unfolding run_forecast_def toy_submit20 toy_plot20
  by (simp add: metrics_eval)

text \<open>
  Claim C3, as amended. After the loop over the futures every one of the four methods is
  accounted for exactly once. \<^verbatim>\<open>results\<close> holds, in the order of the futures, one
  entry with the metric set for each method whose task and scoring succeeded, and
  nothing else; the messages are, in the same order, one message with the exception for
  each method whose task or scoring raised, and nothing else.
\<close>

theorem each_method_scored_or_reported:
  assumes "collect_results ts (fst (submit_all L ts c s0)) ([], []) = (res, msgs)"
  shows "map fst (fst (submit_all L ts c s0)) = [''ETS'', ''ARIMA'', ''XGBoost'', ''LSTM''] \<and>
         res = concat (map (\<lambda>(name, future).
                 case score ts future of Inl e \<Rightarrow> [] | Inr metrics \<Rightarrow> [(name, metrics)])
                 (fst (submit_all L ts c s0))) \<and>
         msgs = concat (map (\<lambda>(name, future).
                 case score ts future of Inl e \<Rightarrow> [(name, e)] | Inr metrics \<Rightarrow> [])
                 (fst (submit_all L ts c s0))) \<and>
         (\<forall>(name, future) \<in> set (fst (submit_all L ts c s0)).
            case score ts future of
              Inr metrics \<Rightarrow> filter (\<lambda>entry. fst entry = name) res = [(name, metrics)] \<and>
                             filter (\<lambda>entry. fst entry = name) msgs = []
            | Inl e \<Rightarrow> filter (\<lambda>entry. fst entry = name) res = [] \<and>
                       filter (\<lambda>entry. fst entry = name) msgs = [(name, e)])"
proof -
  obtain s1 s2 s3 f1 f2 f3 f4 where sub: "fst (submit_all L ts c s0) =
     [(''ETS'', f1), (''ARIMA'', f2), (''XGBoost'', f3), (''LSTM'', f4)]"
    using submit_all_futures[of L ts c s0] by blast
  have "distinct (map fst (fst (submit_all L ts c s0)))"
    by (simp add: submit_all_names)
  from collect_results_exact[OF this, of "[]" ts "[]"] assms
  have res: "res = concat (map (\<lambda>(name, future).
                 case score ts future of Inl e \<Rightarrow> [] | Inr metrics \<Rightarrow> [(name, metrics)])
                 (fst (submit_all L ts c s0)))"
    and msgs: "msgs = concat (map (\<lambda>(name, future).
                 case score ts future of Inl e \<Rightarrow> [(name, e)] | Inr metrics \<Rightarrow> [])
                 (fst (submit_all L ts c s0)))"
    by simp_all
  have each: "\<forall>(name, future) \<in> set (fst (submit_all L ts c s0)).
            case score ts future of
              Inr metrics \<Rightarrow> filter (\<lambda>entry. fst entry = name) res = [(name, metrics)] \<and>
                             filter (\<lambda>entry. fst entry = name) msgs = []
            | Inl e \<Rightarrow> filter (\<lambda>entry. fst entry = name) res = [] \<and>
                       filter (\<lambda>entry. fst entry = name) msgs = [(name, e)]"
    unfolding res msgs sub
    by (auto split: sum.splits)
  from submit_all_names[of L ts c s0] res msgs each show ?thesis
    by (intro conjI)
qed

theorem each_method_scored_or_reported_witness:
  "filter (\<lambda>entry. fst entry = ''ETS'') (fst (collect_results series20
       (fst (submit_all (toy_libraries False) series20 default_config 0)) ([], []))) = [] \<and>
   filter (\<lambda>entry. fst entry = ''ETS'') (snd (collect_results series20
       (fst (submit_all (toy_libraries False) series20 default_config 0)) ([], []))) =
     [(''ETS'', ValueError ''Cannot compute initial seasonals using heuristic method with less than two full seasonal cycles in the data.'')] \<and>
   map fst (fst (collect_results series20
       (fst (submit_all (toy_libraries False) series20 default_config 0)) ([], []))) @
   map fst (snd (collect_results series20
       (fst (submit_all (toy_libraries False) series20 default_config 0)) ([], []))) =
     [''ARIMA'', ''XGBoost'', ''LSTM'', ''ETS'']"
  using each_method_scored_or_reported[of series20 "toy_libraries False" default_config 0
      "fst (collect_results series20
         (fst (submit_all (toy_libraries False) series20 default_config 0)) ([], []))"
      "snd (collect_results series20
         (fst (submit_all (toy_libraries False) series20 default_config 0)) ([], []))"]
  unfolding toy_submit20
  by (simp add: metrics_eval)

text \<open>
  Claim C3 as the specification states it fails: with the exponential smoothing adapter
  failing, \<^verbatim>\<open>results\<close> holds the three other methods and nothing under \<open>ETS\<close>.
\<close>

theorem results_omit_failed_method:
  "map fst (fst (collect_results series20
       (fst (submit_all (toy_libraries False) series20 default_config 0)) ([], []))) =
     [''ARIMA'', ''XGBoost'', ''LSTM''] \<and>
   map_of (fst (collect_results series20
       (fst (submit_all (toy_libraries False) series20 default_config 0)) ([], []))) ''ETS'' = None"
  unfolding toy_submit20
  by (simp add: metrics_eval)

text \<open>
  Claim C10, as amended. In a handler that runs to its end every adapter has been called
  twice with the same arguments, and for each method whose adapter call is deterministic
  the plotted forecast is the forecast that was scored.
\<close>

theorem plotted_equals_scored_if_deterministic:
  assumes "fst (run_forecast L ts c s0) = Completed r"
  shows "\<exists>f1 f2 f3 f4.
     forecasts r = [(''ETS Forecast'', f1), (''ARIMA Forecast'', f2),
                    (''XGBoost Forecast'', f3), (''LSTM Forecast'', f4)] \<and>
     (deterministic (run_ets_model L ts (cfg_trend c) (cfg_seasonal c)
                       (cfg_damped_trend c) (cfg_seasonal_periods c)) \<longrightarrow>
        map_of (fst (submit_all L ts c s0)) ''ETS'' = Some (Inr f1)) \<and>
     (deterministic (run_arima_model L ts (cfg_p c) (cfg_d c) (cfg_q c)
                       (cfg_P c) (cfg_D c) (cfg_Q c) (cfg_m c) (cfg_use_seasonality c)) \<longrightarrow>
        map_of (fst (submit_all L ts c s0)) ''ARIMA'' = Some (Inr f2)) \<and>
     (deterministic (run_xgboost_model L ts (cfg_lags c) (cfg_learning_rate c)
                       (cfg_n_estimators c) (cfg_max_depth c)) \<longrightarrow>
        map_of (fst (submit_all L ts c s0)) ''XGBoost'' = Some (Inr f3)) \<and>
     (deterministic (run_lstm_model L ts (cfg_lags c) (cfg_lstm_units c)
                       (cfg_lstm_layers c) (cfg_dropout c) (cfg_epochs c) (cfg_batch_size c)) \<longrightarrow>
        map_of (fst (submit_all L ts c s0)) ''LSTM'' = Some (Inr f4))"
proof -
  from assms have "fst (plot_forecasts L ts c (snd (submit_all L ts c s0))) = Inr (forecasts r)"
    by (simp add: run_forecast_Completed)
  from plot_forecasts_Inr[OF this] obtain f1 f2 f3 f4 t1 t2 t3 where
    fcs: "forecasts r = [(''ETS Forecast'', f1), (''ARIMA Forecast'', f2),
            (''XGBoost Forecast'', f3), (''LSTM Forecast'', f4)]" and
    e: "fst (run_ets_model L ts (cfg_trend c) (cfg_seasonal c)
            (cfg_damped_trend c) (cfg_seasonal_periods c) (snd (submit_all L ts c s0))) = Inr f1" and
    a: "fst (run_arima_model L ts (cfg_p c) (cfg_d c) (cfg_q c)
            (cfg_P c) (cfg_D c) (cfg_Q c) (cfg_m c) (cfg_use_seasonality c) t1) = Inr f2" and
    x: "fst (run_xgboost_model L ts (cfg_lags c) (cfg_learning_rate c)
            (cfg_n_estimators c) (cfg_max_depth c) t2) = Inr f3" and
    n: "fst (run_lstm_model L ts (cfg_lags c) (cfg_lstm_units c)
            (cfg_lstm_layers c) (cfg_dropout c) (cfg_epochs c) (cfg_batch_size c) t3) = Inr f4"
    by blast
  obtain s1 s2 s3 where sub: "fst (submit_all L ts c s0) =
     [(''ETS'', fst (run_ets_model L ts (cfg_trend c) (cfg_seasonal c)
                       (cfg_damped_trend c) (cfg_seasonal_periods c) s0)),
      (''ARIMA'', fst (run_arima_model L ts (cfg_p c) (cfg_d c) (cfg_q c)
                         (cfg_P c) (cfg_D c) (cfg_Q c) (cfg_m c) (cfg_use_seasonality c) s1)),
      (''XGBoost'', fst (run_xgboost_model L ts (cfg_lags c) (cfg_learning_rate c)
                           (cfg_n_estimators c) (cfg_max_depth c) s2)),
      (''LSTM'', fst (run_lstm_model L ts (cfg_lags c) (cfg_lstm_units c)
                        (cfg_lstm_layers c) (cfg_dropout c) (cfg_epochs c)
                        (cfg_batch_size c) s3))]"
    using submit_all_futures[of L ts c s0] by blast
  have e': "fst (run_ets_model L ts (cfg_trend c) (cfg_seasonal c)
            (cfg_damped_trend c) (cfg_seasonal_periods c) s0) = Inr f1"
    if "deterministic (run_ets_model L ts (cfg_trend c) (cfg_seasonal c)
            (cfg_damped_trend c) (cfg_seasonal_periods c))"
    using that e unfolding deterministic_def by metis
  have a': "fst (run_arima_model L ts (cfg_p c) (cfg_d c) (cfg_q c)
            (cfg_P c) (cfg_D c) (cfg_Q c) (cfg_m c) (cfg_use_seasonality c) s1) = Inr f2"
    if "deterministic (run_arima_model L ts (cfg_p c) (cfg_d c) (cfg_q c)
            (cfg_P c) (cfg_D c) (cfg_Q c) (cfg_m c) (cfg_use_seasonality c))"
    using that a unfolding deterministic_def by metis
  have x': "fst (run_xgboost_model L ts (cfg_lags c) (cfg_learning_rate c)
            (cfg_n_estimators c) (cfg_max_depth c) s2) = Inr f3"
    if "deterministic (run_xgboost_model L ts (cfg_lags c) (cfg_learning_rate c)
            (cfg_n_estimators c) (cfg_max_depth c))"
    using that x unfolding deterministic_def by metis
  have n': "fst (run_lstm_model L ts (cfg_lags c) (cfg_lstm_units c)
            (cfg_lstm_layers c) (cfg_dropout c) (cfg_epochs c) (cfg_batch_size c) s3) = Inr f4"
    if "deterministic (run_lstm_model L ts (cfg_lags c) (cfg_lstm_units c)
            (cfg_lstm_layers c) (cfg_dropout c) (cfg_epochs c) (cfg_batch_size c))"
    using that n unfolding deterministic_def by metis
  show ?thesis
    unfolding sub fcs using e' a' x' n' by simp
qed

theorem plotted_equals_scored_if_deterministic_witness:
  "\<exists>r. fst (run_forecast (toy_libraries False) series30 default_config 0) = Completed r \<and>
       map snd (fst (submit_all (toy_libraries False) series30 default_config 0)) =
       map (\<lambda>(label, forecast). Inr forecast) (forecasts r)"
proof -
  have "\<exists>r. fst (run_forecast (toy_libraries False) series30 default_config 0) = Completed r"
    unfolding run_forecast_def toy_submit30 toy_plot30
    by (simp add: ax_plot_def metrics_eval numeral_eq_Suc)
  then obtain r where r: "fst (run_forecast (toy_libraries False) series30 default_config 0) = Completed r"
    by blast
  have d1: "deterministic (run_ets_model (toy_libraries False) series30 (cfg_trend default_config)
       (cfg_seasonal default_config) (cfg_damped_trend default_config)
       (cfg_seasonal_periods default_config))"
    by (simp add: deterministic_def default_config_def toy_ets30)
  have d2: "deterministic (run_arima_model (toy_libraries False) series30 (cfg_p default_config)
       (cfg_d default_config) (cfg_q default_config) (cfg_P default_config) (cfg_D default_config)
       (cfg_Q default_config) (cfg_m default_config) (cfg_use_seasonality default_config))"
    by (simp add: deterministic_def default_config_def toy_arima30)
  have d3: "deterministic (run_xgboost_model (toy_libraries False) series30 (cfg_lags default_config)
       (cfg_learning_rate default_config) (cfg_n_estimators default_config)
       (cfg_max_depth default_config))"
    by (simp add: deterministic_def default_config_def toy_xgboost30)
  have d4: "deterministic (run_lstm_model (toy_libraries False) series30 (cfg_lags default_config)
       (cfg_lstm_units default_config) (cfg_lstm_layers default_config)
       (cfg_dropout default_config) (cfg_epochs default_config) (cfg_batch_size default_config))"
    by (simp add: deterministic_def default_config_def toy_lstm30)
  from plotted_equals_scored_if_deterministic[OF r] d1 d2 d3 d4 obtain f1 f2 f3 f4 where
    "forecasts r = [(''ETS Forecast'', f1), (''ARIMA Forecast'', f2),
                    (''XGBoost Forecast'', f3), (''LSTM Forecast'', f4)]"
    "map_of (fst (submit_all (toy_libraries False) series30 default_config 0)) ''ETS'' = Some (Inr f1)"
    "map_of (fst (submit_all (toy_libraries False) series30 default_config 0)) ''ARIMA'' = Some (Inr f2)"
    "map_of (fst (submit_all (toy_libraries False) series30 default_config 0)) ''XGBoost'' = Some (Inr f3)"
    "map_of (fst (submit_all (toy_libraries False) series30 default_config 0)) ''LSTM'' = Some (Inr f4)"
    by blast
  then have "map snd (fst (submit_all (toy_libraries False) series30 default_config 0)) =
       map (\<lambda>(label, forecast). Inr forecast) (forecasts r)"
    unfolding toy_submit30 by simp
  with r show ?thesis by blast
qed

text \<open>
  Claim C10 as the specification states it fails when a fit draws from the random number
  generator, as the network's does: the second call starts from a later generator
  state, and the plotted LSTM forecast differs from the scored one.
\<close>

theorem lstm_plotted_differs_from_scored:
  "fst (submit_all (toy_libraries True) series30 default_config 0) =
     [(''ETS'', Inr [30, 30, 30, 30, 30, 30, 30, 30, 30, 30, 30, 30]),
      (''ARIMA'', Inr [30, 30, 30, 30, 30, 30, 30, 30, 30, 30, 30, 30]),
      (''XGBoost'', Inr [18, 18, 18, 18, 18, 18, 18, 18, 18, 18, 18, 18]),
      (''LSTM'', Inr [18, 18, 18, 18, 18, 18, 18, 18, 18, 18, 18, 18])] \<and>
   (case fst (run_forecast (toy_libraries True) series30 default_config 0) of
      Completed r \<Rightarrow>
        forecasts r =
          [(''ETS Forecast'', [30, 30, 30, 30, 30, 30, 30, 30, 30, 30, 30, 30]),
           (''ARIMA Forecast'', [30, 30, 30, 30, 30, 30, 30, 30, 30, 30, 30, 30]),
           (''XGBoost Forecast'', [18, 18, 18, 18, 18, 18, 18, 18, 18, 18, 18, 18]),
           (''LSTM Forecast'', [19, 19, 19, 19, 19, 19, 19, 19, 19, 19, 19, 19])]
    | Aborted msgs e \<Rightarrow> False)"
  unfolding run_forecast_def toy_submit30 toy_plot30
  by (simp add: ax_plot_def metrics_eval numeral_eq_Suc)

end
